theory Spec2Isabelle
  imports Main
begin

section \<open>JavaScript values\<close>

text \<open>
  The scalar values that travel through the data-access layer: request bodies, query
  strings and the cells of a result row. \<open>JNum\<close> carries the integers (the safe ones, on
  which JavaScript's \<open>String(n)\<close> is the decimal numeral); strings are lists of code
  units.
\<close>

datatype jsval = JUndefined | JNull | JBool bool | JNum int | JStr string

text \<open>
  A plain object is the list of its own properties in the order in which they were
  created (insertion order); its prototype is \<open>Object.prototype\<close>. \<open>Object.keys\<close> and
  \<open>Object.values\<close> enumerate the properties whose names are array indices first, in
  ascending numeric order, and then the others in insertion order. A name is an array
  index when it is the decimal numeral of a number below \<open>2^32 - 1\<close>.
\<close>

type_synonym row = "(string \<times> jsval) list"

datatype error =
    BadRequestError string
  | NotFoundError string
  | UnauthorizedError string
  | LibraryError string

definition dq :: string where
  "dq = [CHR 0x22]"

definition nl :: string where
  "nl = [CHR 0x0A]"

text \<open>Truthiness, as \<open>if (v)\<close>, \<open>!v\<close> and \<open>a || b\<close> test it.\<close>

fun truthy :: "jsval \<Rightarrow> bool" where
  "truthy JUndefined = False"
| "truthy JNull = False"
| "truthy (JBool b) = b"
| "truthy (JNum n) = (n \<noteq> 0)"
| "truthy (JStr s) = (s \<noteq> [])"

text \<open>The decimal numeral of a natural number, and \<open>String(v)\<close> as a template literal applies it.\<close>

definition digit :: "nat \<Rightarrow> char" where
  "digit d = ''0123456789'' ! d"

fun show_nat :: "nat \<Rightarrow> string" where
  "show_nat n = (if n < 10 then [digit n] else show_nat (n div 10) @ [digit (n mod 10)])"

declare show_nat.simps [simp del]

definition show_int :: "int \<Rightarrow> string" where
  "show_int i = (if i < 0 then ''-'' @ show_nat (nat (- i)) else show_nat (nat i))"

fun to_string :: "jsval \<Rightarrow> string" where
  "to_string JUndefined = ''undefined''"
| "to_string JNull = ''null''"
| "to_string (JBool b) = (if b then ''true'' else ''false'')"
| "to_string (JNum n) = show_int n"
| "to_string (JStr s) = s"

definition is_digit :: "char \<Rightarrow> bool" where
  "is_digit c = (c \<in> set ''0123456789'')"

definition digit_value :: "char \<Rightarrow> nat" where
  "digit_value c = length (takeWhile (\<lambda>d. d \<noteq> c) ''0123456789'')"

definition digits_value :: "string \<Rightarrow> nat" where
  "digits_value s = foldl (\<lambda>n c. 10 * n + digit_value c) 0 s"

definition is_array_index :: "string \<Rightarrow> bool" where
  "is_array_index k =
     (k \<noteq> [] \<and> list_all is_digit k \<and> show_nat (digits_value k) = k
      \<and> digits_value k < 4294967295)"

definition Object_entries :: "row \<Rightarrow> row" where
  "Object_entries obj =
     sort_key (\<lambda>p. digits_value (fst p)) (filter (\<lambda>p. is_array_index (fst p)) obj)
     @ filter (\<lambda>p. \<not> is_array_index (fst p)) obj"

definition Object_keys :: "row \<Rightarrow> string list" where
  "Object_keys obj = map fst (Object_entries obj)"

definition Object_values :: "row \<Rightarrow> jsval list" where
  "Object_values obj = map snd (Object_entries obj)"

text \<open>
  The members that every plain object inherits from \<open>Object.prototype\<close>, each with the
  text a template literal prints for it: a built-in function prints as
  \<open>function name() { [native code] }\<close>, and \<open>__proto__\<close> reads the prototype itself, an
  object. All of them are truthy.
\<close>

definition native_function :: "string \<Rightarrow> string" where
  "native_function name = ''function '' @ name @ ''() { [native code] }''"

definition Object_prototype :: "(string \<times> string) list" where
  "Object_prototype =
     [(''constructor'', native_function ''Object''),
      (''__defineGetter__'', native_function ''__defineGetter__''),
      (''__defineSetter__'', native_function ''__defineSetter__''),
      (''hasOwnProperty'', native_function ''hasOwnProperty''),
      (''__lookupGetter__'', native_function ''__lookupGetter__''),
      (''__lookupSetter__'', native_function ''__lookupSetter__''),
      (''isPrototypeOf'', native_function ''isPrototypeOf''),
      (''propertyIsEnumerable'', native_function ''propertyIsEnumerable''),
      (''toString'', native_function ''toString''),
      (''valueOf'', native_function ''valueOf''),
      (''__proto__'', ''[object Object]''),
      (''toLocaleString'', native_function ''toLocaleString'')]"

text \<open>\<open>Array.prototype.join\<close> on an array of strings.\<close>

fun join :: "string \<Rightarrow> string list \<Rightarrow> string" where
  "join sep [] = []"
| "join sep [x] = x"
| "join sep (x # y # ys) = x @ sep @ join sep (y # ys)"

text \<open>\<open>xs.map((x, idx) => f(x, idx))\<close>, the index counted from \<open>i\<close>.\<close>

fun map_idx :: "('a \<Rightarrow> nat \<Rightarrow> 'b) \<Rightarrow> nat \<Rightarrow> 'a list \<Rightarrow> 'b list" where
  "map_idx f i [] = []"
| "map_idx f i (x # xs) = f x i # map_idx f (Suc i) xs"

section \<open>The partial-update clause builder (helpers/sql.js)\<close>

record partial_update =
  setCols :: string
  "values" :: "jsval list"

text \<open>
  \<open>jsToSql[colName] || colName\<close>. The column-name mapping is a plain object whose own
  properties hold strings: an own property is read first, and an empty string is falsy;
  a name that is no own property is looked up in \<open>Object.prototype\<close>, whose members are
  truthy and are printed by the template literal; any other name reads \<open>undefined\<close>.
\<close>

definition column :: "(string \<times> string) list \<Rightarrow> string \<Rightarrow> string" where
  "column jsToSql colName =
     (case map_of jsToSql colName of
        Some c \<Rightarrow> if c \<noteq> [] then c else colName
      | None \<Rightarrow>
         (case map_of Object_prototype colName of
            Some member \<Rightarrow> member
          | None \<Rightarrow> colName))"

definition segment :: "(string \<times> string) list \<Rightarrow> string \<Rightarrow> nat \<Rightarrow> string" where
  "segment jsToSql colName idx = dq @ column jsToSql colName @ dq @ ''=$'' @ show_nat (idx + 1)"

definition sqlForPartialUpdate :: "row \<Rightarrow> (string \<times> string) list \<Rightarrow> error + partial_update" where
  "sqlForPartialUpdate dataToUpdate jsToSql =
     (let keys = Object_keys dataToUpdate in
      if length keys = 0 then Inl (BadRequestError ''No data'')
      else
        let cols = map_idx (segment jsToSql) 0 keys in
        Inr \<lparr> setCols = join '', '' cols, values = Object_values dataToUpdate \<rparr>)"

section \<open>The database client\<close>

text \<open>
  \<open>db.query(text, params)\<close> is the one call into the store. A query whose text is built
  at run time is kept as text and handed to the client, a parameter of the model that
  answers with the result rows or with the error it throws. Every operation returns,
  beside its result, the list of the queries it issued.
\<close>

type_synonym query = "string \<times> jsval list"

type_synonym db = "query \<Rightarrow> error + row list"

text \<open>
  \<open>obj.k\<close> for the property names that the models read (\<open>password\<close>, the criteria
  names and the column names of a result row), none of which \<open>Object.prototype\<close> has:
  \<open>undefined\<close> when the object has no such own property.
\<close>

definition get_prop :: "row \<Rightarrow> string \<Rightarrow> jsval" where
  "get_prop obj k = (case map_of obj k of None \<Rightarrow> JUndefined | Some v \<Rightarrow> v)"

text \<open>\<open>obj.k = v\<close>: an existing property keeps its place, a new one goes last.\<close>

definition assign :: "row \<Rightarrow> string \<Rightarrow> jsval \<Rightarrow> row" where
  "assign obj k v =
     (if k \<in> set (map fst obj) then map (\<lambda>p. if fst p = k then (k, v) else p) obj
      else obj @ [(k, v)])"

text \<open>\<open>delete obj.k\<close>.\<close>

definition js_delete :: "row \<Rightarrow> string \<Rightarrow> row" where
  "js_delete obj k = filter (\<lambda>p. fst p \<noteq> k) obj"

text \<open>
  \<open>const x = result.rows[0]; if (!x) throw new NotFoundError(msg); return x\<close>:
  a row object is truthy, so only the empty result throws.
\<close>

definition first_row_or :: "string \<Rightarrow> error + row list \<Rightarrow> error + row" where
  "first_row_or msg res =
     (case res of
        Inl e \<Rightarrow> Inl e
      | Inr rows \<Rightarrow> (case rows of [] \<Rightarrow> Inl (NotFoundError msg) | x # _ \<Rightarrow> Inr x))"

section \<open>Partial updates (models/company.js, models/job.js, models/user.js)\<close>

definition Company_jsToSql :: "(string \<times> string) list" where
  "Company_jsToSql = [(''numEmployees'', ''num_employees''), (''logoUrl'', ''logo_url'')]"

definition Company_update_sql :: "string \<Rightarrow> string \<Rightarrow> string" where
  "Company_update_sql setCols' handleVarIdx =
     ''UPDATE companies '' @ nl @ ''                      SET '' @ setCols'
     @ '' '' @ nl @ ''                      WHERE handle = '' @ handleVarIdx
     @ '' '' @ nl @ ''                      RETURNING handle, '' @ nl
     @ ''                                name, '' @ nl
     @ ''                                description, '' @ nl
     @ ''                                num_employees AS '' @ dq @ ''numEmployees'' @ dq @ '', '' @ nl
     @ ''                                logo_url AS '' @ dq @ ''logoUrl'' @ dq"

definition Company_update :: "db \<Rightarrow> jsval \<Rightarrow> row \<Rightarrow> query list \<times> (error + row)" where
  "Company_update db handle data =
     (case sqlForPartialUpdate data Company_jsToSql of
        Inl e \<Rightarrow> ([], Inl e)
      | Inr upd \<Rightarrow>
          let handleVarIdx = ''$'' @ show_nat (length (values upd) + 1);
              querySql = Company_update_sql (setCols upd) handleVarIdx;
              q = (querySql, values upd @ [handle])
          in ([q], first_row_or (''No company: '' @ to_string handle) (db q)))"

definition Job_jsToSql :: "(string \<times> string) list" where
  "Job_jsToSql = [(''title'', ''title''), (''salary'', ''salary''), (''equity'', ''equity'')]"

definition Job_update_sql :: "string \<Rightarrow> string \<Rightarrow> string" where
  "Job_update_sql setCols' idVarIdx =
     ''UPDATE jobs '' @ nl @ ''                      SET '' @ setCols'
     @ '' '' @ nl @ ''                      WHERE id = '' @ idVarIdx
     @ '' '' @ nl @ ''                      RETURNING id, '' @ nl
     @ ''                                title, '' @ nl
     @ ''                                salary, '' @ nl
     @ ''                                equity, '' @ nl
     @ ''                                company_handle AS '' @ dq @ ''companyHandle'' @ dq"

definition Job_update :: "db \<Rightarrow> jsval \<Rightarrow> row \<Rightarrow> query list \<times> (error + row)" where
  "Job_update db jid data =
     (case sqlForPartialUpdate data Job_jsToSql of
        Inl e \<Rightarrow> ([], Inl e)
      | Inr upd \<Rightarrow>
          let idVarIdx = ''$'' @ show_nat (length (values upd) + 1);
              querySql = Job_update_sql (setCols upd) idVarIdx;
              q = (querySql, values upd @ [jid])
          in ([q], first_row_or (''No job id: '' @ to_string jid) (db q)))"

definition User_jsToSql :: "(string \<times> string) list" where
  "User_jsToSql =
     [(''firstName'', ''first_name''), (''lastName'', ''last_name''), (''isAdmin'', ''is_admin'')]"

definition User_update_sql :: "string \<Rightarrow> string \<Rightarrow> string" where
  "User_update_sql setCols' usernameVarIdx =
     ''UPDATE users '' @ nl @ ''                      SET '' @ setCols'
     @ '' '' @ nl @ ''                      WHERE username = '' @ usernameVarIdx
     @ '' '' @ nl @ ''                      RETURNING username,'' @ nl
     @ ''                                first_name AS '' @ dq @ ''firstName'' @ dq @ '','' @ nl
     @ ''                                last_name AS '' @ dq @ ''lastName'' @ dq @ '','' @ nl
     @ ''                                email,'' @ nl
     @ ''                                is_admin AS '' @ dq @ ''isAdmin'' @ dq"

text \<open>
  \<open>bcrypt.hash(v, BCRYPT_WORK_FACTOR)\<close> is a parameter: the library and the work factor
  are outside the sources. It answers with the hash or with the error it rejects with.
  \<open>if (data.password) data.password = await bcrypt.hash(...)\<close> rewrites the caller's
  object in place.
\<close>

definition hash_password :: "(jsval \<Rightarrow> error + string) \<Rightarrow> row \<Rightarrow> error + row" where
  "hash_password bcrypt_hash data =
     (if truthy (get_prop data ''password'') then
        (case bcrypt_hash (get_prop data ''password'') of
           Inl e \<Rightarrow> Inl e
         | Inr h \<Rightarrow> Inr (assign data ''password'' (JStr h)))
      else Inr data)"

definition User_update ::
    "(jsval \<Rightarrow> error + string) \<Rightarrow> db \<Rightarrow> jsval \<Rightarrow> row \<Rightarrow> query list \<times> (error + row)" where
  "User_update bcrypt_hash db username data =
     (case hash_password bcrypt_hash data of
        Inl e \<Rightarrow> ([], Inl e)
      | Inr data' \<Rightarrow>
         (case sqlForPartialUpdate data' User_jsToSql of
            Inl e \<Rightarrow> ([], Inl e)
          | Inr upd \<Rightarrow>
              let usernameVarIdx = ''$'' @ show_nat (length (values upd) + 1);
                  querySql = User_update_sql (setCols upd) usernameVarIdx;
                  q = (querySql, values upd @ [username])
              in ([q],
                  case first_row_or (''No user: '' @ to_string username) (db q) of
                    Inl e \<Rightarrow> Inl e
                  | Inr user \<Rightarrow> Inr (js_delete user ''password''))))"

section \<open>Filtered listings (Company.findAll, Job.findAll)\<close>

text \<open>
  \<open>a > b\<close> on two values. Two strings are compared code unit by code unit; otherwise
  both operands become numbers (\<open>undefined\<close> is NaN, on which every comparison is false;
  \<open>null\<close> is 0; booleans are 0 and 1). What a string becomes as a number is left to the
  parameter \<open>coerced_gt\<close>, which answers \<open>a > b\<close> when exactly one operand is a string;
  \<open>to_number\<close> is consulted on the other values only.
\<close>

fun str_lt :: "string \<Rightarrow> string \<Rightarrow> bool" where
  "str_lt [] [] = False"
| "str_lt [] (y # ys) = True"
| "str_lt (x # xs) [] = False"
| "str_lt (x # xs) (y # ys) =
     (if (of_char x :: nat) < of_char y then True
      else if (of_char y :: nat) < of_char x then False
      else str_lt xs ys)"

fun to_number :: "jsval \<Rightarrow> int option" where
  "to_number JUndefined = None"
| "to_number JNull = Some 0"
| "to_number (JBool b) = Some (if b then 1 else 0)"
| "to_number (JNum n) = Some n"
| "to_number (JStr s) = None"

fun is_string :: "jsval \<Rightarrow> bool" where
  "is_string (JStr s) = True"
| "is_string v = False"

definition js_gt :: "(jsval \<Rightarrow> jsval \<Rightarrow> bool) \<Rightarrow> jsval \<Rightarrow> jsval \<Rightarrow> bool" where
  "js_gt coerced_gt a b =
     (if is_string a \<and> is_string b then str_lt (to_string b) (to_string a)
      else if is_string a \<or> is_string b then coerced_gt a b
      else (case to_number a of
              None \<Rightarrow> False
            | Some x \<Rightarrow> (case to_number b of None \<Rightarrow> False | Some y \<Rightarrow> y < x)))"

text \<open>
  One step of the \<open>whereStatement\<close>: the first condition opens with \<open>WHERE\<close>, a later
  one is appended after \<open>and\<close>, with no blank before it.
\<close>

definition add_condition :: "string \<Rightarrow> string \<Rightarrow> string" where
  "add_condition whereStatement cond =
     (if length whereStatement = 0 then whereStatement @ ''WHERE '' @ cond
      else whereStatement @ ''and '' @ cond)"

definition Company_where :: "row \<Rightarrow> string" where
  "Company_where query =
     (let w0 = [];
          w1 = (if truthy (get_prop query ''name'')
                then add_condition w0
                       (''name ilike '' @ [CHR 0x27] @ ''%'' @ to_string (get_prop query ''name'')
                        @ ''%'' @ [CHR 0x27])
                else w0);
          w2 = (if truthy (get_prop query ''minEmployees'')
                then add_condition w1
                       (''num_employees >= '' @ to_string (get_prop query ''minEmployees''))
                else w1);
          w3 = (if truthy (get_prop query ''maxEmployees'')
                then add_condition w2
                       (''num_employees <= '' @ to_string (get_prop query ''maxEmployees''))
                else w2)
      in w3)"

definition Company_findAll_sql :: "string \<Rightarrow> string" where
  "Company_findAll_sql whereStatement =
     ''SELECT handle,'' @ nl @ ''                  name,'' @ nl
     @ ''                  description,'' @ nl
     @ ''                  num_employees AS '' @ dq @ ''numEmployees'' @ dq @ '','' @ nl
     @ ''                  logo_url AS '' @ dq @ ''logoUrl'' @ dq @ nl
     @ ''          '' @ nl
     @ ''                  FROM companies'' @ nl
     @ ''                  '' @ whereStatement @ nl
     @ ''                  ORDER BY name''"

definition Company_findAll ::
    "(jsval \<Rightarrow> jsval \<Rightarrow> bool) \<Rightarrow> db \<Rightarrow> row \<Rightarrow> query list \<times> (error + row list)" where
  "Company_findAll coerced_gt db query =
     (if truthy (get_prop query ''minEmployees'') \<and> truthy (get_prop query ''maxEmployees'')
         \<and> js_gt coerced_gt (get_prop query ''minEmployees'') (get_prop query ''maxEmployees'')
      then ([], Inl (BadRequestError ''Min Employees cannot be greater than Max Employees''))
      else
        let q = (Company_findAll_sql (Company_where query), [])
        in ([q], db q))"

definition Job_where :: "row \<Rightarrow> string" where
  "Job_where query =
     (let w0 = [];
          w1 = (if truthy (get_prop query ''title'')
                then add_condition w0
                       (''title ilike '' @ [CHR 0x27] @ ''%'' @ to_string (get_prop query ''title'')
                        @ ''%'' @ [CHR 0x27])
                else w0);
          w2 = (if truthy (get_prop query ''minSalary'')
                then add_condition w1 (''salary >= '' @ to_string (get_prop query ''minSalary''))
                else w1);
          w3 = (if truthy (get_prop query ''hasEquity'')
                then (if get_prop query ''hasEquity'' = JStr ''true''
                      then add_condition w2 ''equity > 0''
                      else w2)
                else w2)
      in w3)"

definition Job_findAll_sql :: "string \<Rightarrow> string" where
  "Job_findAll_sql whereStatement =
     ''SELECT id, title, salary, equity, company_handle as '' @ dq @ ''companyHandle'' @ dq
     @ '' '' @ nl
     @ ''      FROM jobs'' @ nl
     @ ''      '' @ whereStatement"

definition Job_findAll :: "db \<Rightarrow> row \<Rightarrow> query list \<times> (error + row list)" where
  "Job_findAll db query =
     (let q = (Job_findAll_sql (Job_where query), [])
      in ([q], db q))"

section \<open>The tables and the fixed queries\<close>

text \<open>
  Modelled from the spec: the table declarations (the schema file is not among the
  sources). The columns are the ones the queries name; the types and the nullable
  columns are those of the spec's data model (\<open>numEmployees\<close>, \<open>logoUrl\<close>, \<open>salary\<close> and
  \<open>equity\<close> nullable, \<open>equity\<close> a decimal that the client returns as a string).

  A query whose text is a constant of the source is translated into a function on the
  tables: \<open>WHERE\<close> is a filter, \<open>LEFT JOIN\<close> pairs every left row with its matches or,
  when it has none, once with no right row, and \<open>SELECT ... AS\<close> names the properties
  of the row objects. Rows come in table order.
\<close>

record company_rec =
  c_handle :: string
  c_name :: string
  c_description :: string
  c_num_employees :: "int option"
  c_logo_url :: "string option"

record job_rec =
  j_id :: int
  j_title :: string
  j_salary :: "int option"
  j_equity :: "string option"
  j_company_handle :: string

record user_rec =
  u_username :: string
  u_password :: string
  u_first_name :: string
  u_last_name :: string
  u_email :: string
  u_is_admin :: bool

record application_rec =
  a_username :: string
  a_job_id :: int

record store =
  companies :: "company_rec list"
  jobs :: "job_rec list"
  users :: "user_rec list"
  applications :: "application_rec list"

definition left_join :: "'a list \<Rightarrow> 'b list \<Rightarrow> ('a \<Rightarrow> 'b \<Rightarrow> bool) \<Rightarrow> ('a \<times> 'b option) list" where
  "left_join ls rs on =
     concat (map (\<lambda>l. case filter (on l) rs of
                          [] \<Rightarrow> [(l, None)]
                        | m # ms \<Rightarrow> map (\<lambda>r. (l, Some r)) (m # ms)) ls)"

text \<open>A nullable cell as the client returns it.\<close>

definition cell :: "('a \<Rightarrow> jsval) \<Rightarrow> 'a option \<Rightarrow> jsval" where
  "cell f c = (case c of None \<Rightarrow> JNull | Some x \<Rightarrow> f x)"

subsection \<open>Company.get\<close>

record company_with_jobs =
  company_of :: row
  jobs_of :: "row option list"

text \<open>
  The rows of
  \<open>SELECT c.handle, c.name, c.description, c.num_employees AS "numEmployees",
  c.logo_url AS "logoUrl", j.id, j.title, j.salary, j.equity
  FROM companies c LEFT JOIN jobs j ON c.handle = j.company_handle WHERE handle = $1\<close>.
\<close>

definition Company_get_rows :: "store \<Rightarrow> string \<Rightarrow> row list" where
  "Company_get_rows st companyHandle =
     map (\<lambda>(c, j).
            [(''handle'', JStr (c_handle c)),
             (''name'', JStr (c_name c)),
             (''description'', JStr (c_description c)),
             (''numEmployees'', cell JNum (c_num_employees c)),
             (''logoUrl'', cell JStr (c_logo_url c)),
             (''id'', cell (\<lambda>r. JNum (j_id r)) j),
             (''title'', cell (\<lambda>r. JStr (j_title r)) j),
             (''salary'', cell (\<lambda>r. cell JNum (j_salary r)) j),
             (''equity'', cell (\<lambda>r. cell JStr (j_equity r)) j)])
         (filter (\<lambda>(c, j). c_handle c = companyHandle)
            (left_join (companies st) (jobs st) (\<lambda>c j. c_handle c = j_company_handle j)))"

text \<open>
  The returned object is \<open>{ handle, name, description, numEmployees, logoUrl, jobs }\<close>;
  an element \<open>None\<close> of \<open>jobs\<close> is \<open>undefined\<close>, what the callback of \<open>map\<close> returns on
  its bare \<open>return\<close>.
\<close>

definition Company_get :: "store \<Rightarrow> string \<Rightarrow> error + company_with_jobs" where
  "Company_get st companyHandle =
     (case Company_get_rows st companyHandle of
        [] \<Rightarrow> Inl (NotFoundError (''No company: '' @ companyHandle))
      | r0 # rest \<Rightarrow>
          let jobs' = map (\<lambda>r. if \<not> truthy (get_prop r ''id'') then None
                                else Some [(''id'', get_prop r ''id''),
                                           (''title'', get_prop r ''title''),
                                           (''salary'', get_prop r ''salary''),
                                           (''equity'', get_prop r ''equity'')])
                          (r0 # rest)
          in Inr \<lparr> company_of = [(''handle'', get_prop r0 ''handle''),
                               (''name'', get_prop r0 ''name''),
                               (''description'', get_prop r0 ''description''),
                               (''numEmployees'', get_prop r0 ''numEmployees''),
                               (''logoUrl'', get_prop r0 ''logoUrl'')],
                    jobs_of = jobs' \<rparr>)"

subsection \<open>User.get\<close>

record user_with_jobs =
  user_of :: row
  jobsApplied :: "jsval list"

text \<open>
  The rows of
  \<open>SELECT u.username, u.first_name AS "firstName", u.last_name AS "lastName", u.email,
  u.is_admin AS "isAdmin", a.job_id AS "jobId"
  FROM users u LEFT JOIN applications a ON u.username = a.username WHERE u.username = $1\<close>.
\<close>

definition User_get_rows :: "store \<Rightarrow> string \<Rightarrow> row list" where
  "User_get_rows st usernameFind =
     map (\<lambda>(u, a).
            [(''username'', JStr (u_username u)),
             (''firstName'', JStr (u_first_name u)),
             (''lastName'', JStr (u_last_name u)),
             (''email'', JStr (u_email u)),
             (''isAdmin'', JBool (u_is_admin u)),
             (''jobId'', cell (\<lambda>r. JNum (a_job_id r)) a)])
         (filter (\<lambda>(u, a). u_username u = usernameFind)
            (left_join (users st) (applications st) (\<lambda>u a. u_username u = a_username a)))"

definition User_get :: "store \<Rightarrow> string \<Rightarrow> error + user_with_jobs" where
  "User_get st usernameFind =
     (case User_get_rows st usernameFind of
        [] \<Rightarrow> Inl (NotFoundError (''No user: '' @ usernameFind))
      | r0 # rest \<Rightarrow>
          let jobsApplied' = map (\<lambda>r. get_prop r ''jobId'') (r0 # rest)
          in Inr \<lparr> user_of = [(''username'', get_prop r0 ''username''),
                            (''firstName'', get_prop r0 ''firstName''),
                            (''lastName'', get_prop r0 ''lastName''),
                            (''email'', get_prop r0 ''email''),
                            (''isAdmin'', get_prop r0 ''isAdmin'')],
                    jobsApplied = jobsApplied' \<rparr>)"

subsection \<open>User.authenticate\<close>

text \<open>
  The rows of
  \<open>SELECT username, password, first_name AS "firstName", last_name AS "lastName", email,
  is_admin AS "isAdmin" FROM users WHERE username = $1\<close>.
  \<open>bcrypt.compare\<close> is a parameter.
\<close>

definition User_authenticate_rows :: "store \<Rightarrow> string \<Rightarrow> row list" where
  "User_authenticate_rows st username =
     map (\<lambda>u. [(''username'', JStr (u_username u)),
                (''password'', JStr (u_password u)),
                (''firstName'', JStr (u_first_name u)),
                (''lastName'', JStr (u_last_name u)),
                (''email'', JStr (u_email u)),
                (''isAdmin'', JBool (u_is_admin u))])
         (filter (\<lambda>u. u_username u = username) (users st))"

definition User_authenticate ::
    "(string \<Rightarrow> jsval \<Rightarrow> bool) \<Rightarrow> store \<Rightarrow> string \<Rightarrow> string \<Rightarrow> error + row" where
  "User_authenticate bcrypt_compare st username password =
     (case User_authenticate_rows st username of
        [] \<Rightarrow> Inl (UnauthorizedError ''Invalid username/password'')
      | user' # rest \<Rightarrow>
          if bcrypt_compare password (get_prop user' ''password'') = True
          then Inr (js_delete user' ''password'')
          else Inl (UnauthorizedError ''Invalid username/password''))"

subsection \<open>User.register\<close>

record registration =
  reg_username :: string
  reg_password :: string
  reg_firstName :: string
  reg_lastName :: string
  reg_email :: string
  reg_isAdmin :: bool

text \<open>
  The duplicate check is \<open>SELECT username FROM users WHERE username = $1\<close>; the insertion
  is \<open>INSERT INTO users (username, password, first_name, last_name, email, is_admin)
  VALUES ($1, $2, $3, $4, $5, $6) RETURNING username, first_name AS "firstName",
  last_name AS "lastName", email, is_admin AS "isAdmin"\<close>, with the hash as \<open>$2\<close>.
\<close>

definition User_register ::
    "(jsval \<Rightarrow> error + string) \<Rightarrow> store \<Rightarrow> registration \<Rightarrow> error + (store \<times> row)" where
  "User_register bcrypt_hash st reg =
     (case filter (\<lambda>u. u_username u = reg_username reg) (users st) of
        d # ds \<Rightarrow> Inl (BadRequestError (''Duplicate username: '' @ reg_username reg))
      | [] \<Rightarrow>
         (case bcrypt_hash (JStr (reg_password reg)) of
            Inl e \<Rightarrow> Inl e
          | Inr hashedPassword \<Rightarrow>
              let new = \<lparr> u_username = reg_username reg, u_password = hashedPassword,
                          u_first_name = reg_firstName reg, u_last_name = reg_lastName reg,
                          u_email = reg_email reg, u_is_admin = reg_isAdmin reg \<rparr>;
                  user' = [(''username'', JStr (u_username new)),
                           (''firstName'', JStr (u_first_name new)),
                           (''lastName'', JStr (u_last_name new)),
                           (''email'', JStr (u_email new)),
                           (''isAdmin'', JBool (u_is_admin new))]
              in Inr (st\<lparr>users := users st @ [new]\<rparr>, user')))"

subsection \<open>The job listing without text criteria\<close>




section \<open>Sample tables\<close>

text \<open>
  The fixtures of the test suite, cut down: company \<open>c1\<close>, user \<open>u2\<close>, and one job of
  \<open>c1\<close> in the second store only. Nobody has applied to anything.
\<close>

definition company_c1 :: company_rec where
  "company_c1 = \<lparr> c_handle = ''c1'', c_name = ''C1'', c_description = ''Desc1'',
                   c_num_employees = Some 1, c_logo_url = Some ''http://c1.img'' \<rparr>"

definition user_u2 :: user_rec where
  "user_u2 = \<lparr> u_username = ''u2'', u_password = ''$2b$hash'', u_first_name = ''U2F'',
                u_last_name = ''U2L'', u_email = ''user2@user.com'', u_is_admin = False \<rparr>"

definition job_j1 :: job_rec where
  "job_j1 = \<lparr> j_id = 1, j_title = ''j1'', j_salary = Some 100000, j_equity = Some ''0'',
               j_company_handle = ''c1'' \<rparr>"

definition store_without_jobs :: store where
  "store_without_jobs =
     \<lparr> companies = [company_c1], jobs = [], users = [user_u2], applications = [] \<rparr>"

definition store_with_job :: store where
  "store_with_job =
     \<lparr> companies = [company_c1], jobs = [job_j1], users = [user_u2], applications = [] \<rparr>"

definition registration_u3 :: registration where
  "registration_u3 = \<lparr> reg_username = ''u3'', reg_password = ''password3'',
                        reg_firstName = ''U3F'', reg_lastName = ''U3L'',
                        reg_email = ''user3@user.com'', reg_isAdmin = False \<rparr>"

text \<open>A client whose every query succeeds with no rows.\<close>

definition no_rows :: db where
  "no_rows q = Inr []"




text \<open>A stand-in for \<open>bcrypt.hash\<close> that marks what it has hashed.\<close>

definition sample_hash :: "jsval \<Rightarrow> error + string" where
  "sample_hash v = Inr (''$2b$'' @ to_string v)"

section \<open>Properties\<close>

lemma length_map_idx: "length (map_idx f i xs) = length xs"
  by (induction xs arbitrary: i) simp_all

lemma nth_map_idx: "n < length xs \<Longrightarrow> map_idx f i xs ! n = f (xs ! n) (i + n)"
proof (induction xs arbitrary: i n)
  case Nil
  then show ?case by simp
next
  case (Cons x xs)
  show ?case
  proof (cases n)
    case 0
    then show ?thesis by simp
  next
    case (Suc m)
    with Cons.prems have "m < length xs" by simp
    from Cons.IH [OF this, of "Suc i"] Suc show ?thesis by simp
  qed
qed

lemma join_Cons: "join sep (x # xs) = x @ concat (map (\<lambda>s. sep @ s) xs)"
  by (induction xs arbitrary: x) simp_all

lemma length_Object_entries: "length (Object_entries obj) = length obj"
  by (simp add: Object_entries_def sum_length_filter_compl)

lemma set_Object_entries: "set (Object_entries obj) = set obj"
  by (auto simp add: Object_entries_def)

lemma Object_entries_Nil_iff: "Object_entries obj = [] \<longleftrightarrow> obj = []"
  using length_Object_entries [of obj] by (metis length_0_conv)

lemma Object_entries_no_index:
  "\<forall>k \<in> set (map fst obj). \<not> is_array_index k \<Longrightarrow> Object_entries obj = obj"
  by (simp add: Object_entries_def filter_empty_conv filter_id_conv)

lemma Object_entries_others:
  "filter (\<lambda>p. \<not> is_array_index (fst p)) (Object_entries obj)
     = filter (\<lambda>p. \<not> is_array_index (fst p)) obj"
  by (simp add: Object_entries_def filter_sort)

lemma Object_entries_indices:
  "filter (\<lambda>p. is_array_index (fst p)) (Object_entries obj)
     = sort_key (\<lambda>p. digits_value (fst p)) (filter (\<lambda>p. is_array_index (fst p)) obj)"
  by (simp add: Object_entries_def filter_sort)

lemma Object_entries_split:
  "Object_entries obj
     = filter (\<lambda>p. is_array_index (fst p)) (Object_entries obj)
       @ filter (\<lambda>p. \<not> is_array_index (fst p)) (Object_entries obj)"
  unfolding Object_entries_indices Object_entries_others
  by (simp add: Object_entries_def)

lemma Object_entries_indices_sorted:
  "sorted (map (\<lambda>p. digits_value (fst p))
            (filter (\<lambda>p. is_array_index (fst p)) (Object_entries obj)))"
  unfolding Object_entries_indices by (rule sorted_sort_key)

lemma column_cases:
  "(map_of jsToSql k = Some c \<and> c \<noteq> [] \<longrightarrow> column jsToSql k = c)
   \<and> (map_of jsToSql k = Some [] \<longrightarrow> column jsToSql k = k)
   \<and> (map_of jsToSql k = None \<and> map_of Object_prototype k = Some m \<longrightarrow> column jsToSql k = m)
   \<and> (map_of jsToSql k = None \<and> map_of Object_prototype k = None \<longrightarrow> column jsToSql k = k)"
  by (simp add: column_def)

lemma sqlForPartialUpdate_nonempty:
  assumes "dataToUpdate \<noteq> []"
  shows "sqlForPartialUpdate dataToUpdate jsToSql
           = Inr \<lparr> setCols = join '', '' (map_idx (segment jsToSql) 0
                                             (map fst (Object_entries dataToUpdate))),
                   values = map snd (Object_entries dataToUpdate) \<rparr>"
  using assms
  by (simp add: sqlForPartialUpdate_def Object_keys_def Object_values_def Object_entries_Nil_iff)

text \<open>
  C1, as the claim states it, fails. A key that names a member of \<open>Object.prototype\<close>
  and is absent from the column-name mapping gets the text of that member as its
  column, not its own name; and a key that is an array index comes before a key
  inserted earlier.
\<close>

theorem sqlForPartialUpdate_counterexample:
  "sqlForPartialUpdate [(''toString'', JStr ''x'')] []
     = Inr \<lparr> setCols = [CHR 0x22] @ ''function toString() { [native code] }'' @ [CHR 0x22] @ ''=$1'',
             values = [JStr ''x''] \<rparr>
   \<and> sqlForPartialUpdate [(''b'', JNum 1), (''1'', JNum 2)] []
     = Inr \<lparr> setCols = [CHR 0x22] @ ''1'' @ [CHR 0x22] @ ''=$1, '' @ [CHR 0x22] @ ''b'' @ [CHR 0x22] @ ''=$2'',
             values = [JNum 2, JNum 1] \<rparr>"
  by (simp add: sqlForPartialUpdate_def Object_keys_def Object_values_def Object_entries_def
      is_array_index_def is_digit_def digits_value_def digit_value_def
      segment_def column_def Object_prototype_def native_function_def
      show_nat.simps digit_def dq_def)

text \<open>
  C1, amended. For a non-empty update mapping and any column-name mapping,
  \<open>sqlForPartialUpdate\<close> succeeds. Its SET clause is made of exactly one segment per
  input key, joined by \<open>", "\<close>, and its values list has the same length; segment and
  value at position \<open>i\<close> (counted from 0) belong to the \<open>i\<close>-th property in
  \<open>Object.keys\<close> order, the segment being the quoted column followed by \<open>=$\<close> and the
  numeral of \<open>i + 1\<close>. \<open>Object.keys\<close> order holds the same properties as the mapping,
  the array-index keys first in ascending order and the others after them in insertion
  order, so it is insertion order when no key is an array index. The column of a key is
  the mapping's own entry when that is a non-empty string and the key itself when that
  is the empty string; a key absent from the mapping that does not name a member of
  \<open>Object.prototype\<close> uses its own name as the column.
\<close>

theorem sqlForPartialUpdate_clause:
  assumes "dataToUpdate \<noteq> []"
  shows "\<exists>segs upd.
           sqlForPartialUpdate dataToUpdate jsToSql = Inr upd
         \<and> segs \<noteq> []
         \<and> setCols upd = hd segs @ concat (map (\<lambda>s. '', '' @ s) (tl segs))
         \<and> length segs = length dataToUpdate
         \<and> length (values upd) = length dataToUpdate
         \<and> (\<forall>i < length dataToUpdate.
               segs ! i = [CHR 0x22] @ column jsToSql (fst (Object_entries dataToUpdate ! i))
                          @ [CHR 0x22] @ ''=$'' @ show_nat (i + 1)
             \<and> values upd ! i = snd (Object_entries dataToUpdate ! i))
         \<and> set (Object_entries dataToUpdate) = set dataToUpdate
         \<and> length (Object_entries dataToUpdate) = length dataToUpdate
         \<and> Object_entries dataToUpdate
             = filter (\<lambda>p. is_array_index (fst p)) (Object_entries dataToUpdate)
               @ filter (\<lambda>p. \<not> is_array_index (fst p)) (Object_entries dataToUpdate)
         \<and> sorted (map (\<lambda>p. digits_value (fst p))
                     (filter (\<lambda>p. is_array_index (fst p)) (Object_entries dataToUpdate)))
         \<and> filter (\<lambda>p. \<not> is_array_index (fst p)) (Object_entries dataToUpdate)
             = filter (\<lambda>p. \<not> is_array_index (fst p)) dataToUpdate
         \<and> ((\<forall>k \<in> set (map fst dataToUpdate). \<not> is_array_index k)
              \<longrightarrow> Object_entries dataToUpdate = dataToUpdate)
         \<and> (\<forall>k c. map_of jsToSql k = Some c \<and> c \<noteq> [] \<longrightarrow> column jsToSql k = c)
         \<and> (\<forall>k. map_of jsToSql k = Some [] \<longrightarrow> column jsToSql k = k)
         \<and> (\<forall>k. map_of jsToSql k = None \<and> map_of Object_prototype k = None
                \<longrightarrow> column jsToSql k = k)"
proof -
  let ?es = "Object_entries dataToUpdate"
  let ?segs = "map_idx (segment jsToSql) 0 (map fst ?es)"
  let ?upd = "\<lparr> setCols = join '', '' ?segs, values = map snd ?es \<rparr>"
  have len: "length ?es = length dataToUpdate" by (rule length_Object_entries)
  from assms have es: "?es \<noteq> []" by (simp add: Object_entries_Nil_iff)
  have r: "sqlForPartialUpdate dataToUpdate jsToSql = Inr ?upd"
    using assms by (rule sqlForPartialUpdate_nonempty)
  have ls: "length ?segs = length dataToUpdate"
    by (simp add: length_map_idx len)
  with assms have ne: "?segs \<noteq> []" by auto
  then obtain s ss where sss: "?segs = s # ss" by (cases ?segs) auto
  have sc: "setCols ?upd = hd ?segs @ concat (map (\<lambda>s. '', '' @ s) (tl ?segs))"
    unfolding sss by (simp add: join_Cons)
  have lv: "length (values ?upd) = length dataToUpdate"
    by (simp add: len)
  have nth: "\<forall>i < length dataToUpdate.
       ?segs ! i = [CHR 0x22] @ column jsToSql (fst (?es ! i)) @ [CHR 0x22] @ ''=$'' @ show_nat (i + 1)
     \<and> values ?upd ! i = snd (?es ! i)"
    by (simp add: nth_map_idx segment_def len dq_def)
  have ord: "(\<forall>k \<in> set (map fst dataToUpdate). \<not> is_array_index k) \<longrightarrow> ?es = dataToUpdate"
    using Object_entries_no_index [of dataToUpdate] by blast
  have col: "(\<forall>k c. map_of jsToSql k = Some c \<and> c \<noteq> [] \<longrightarrow> column jsToSql k = c)
         \<and> (\<forall>k. map_of jsToSql k = Some [] \<longrightarrow> column jsToSql k = k)
         \<and> (\<forall>k. map_of jsToSql k = None \<and> map_of Object_prototype k = None
                \<longrightarrow> column jsToSql k = k)"
    using column_cases [of jsToSql] by blast
  show ?thesis
    apply (rule exI [of _ ?segs])
    apply (rule exI [of _ ?upd])
    apply (intro conjI)
    apply (rule r)
    apply (rule ne)
    apply (rule sc)
    apply (rule ls)
    apply (rule lv)
    apply (rule nth)
    apply (rule set_Object_entries)
    apply (rule len)
    apply (rule Object_entries_split)
    apply (rule Object_entries_indices_sorted)
    apply (rule Object_entries_others)
    apply (rule ord)
    using col apply blast
    using col apply blast
    using col apply blast
    done
qed

theorem sqlForPartialUpdate_clause_witness:
  "[(''firstName'', JStr ''Aliya''), (''age'', JNum 32)] \<noteq> ([] :: row)
   \<and> Object_entries [(''firstName'', JStr ''Aliya''), (''age'', JNum 32)]
       = [(''firstName'', JStr ''Aliya''), (''age'', JNum 32)]
   \<and> (\<exists>segs upd.
           sqlForPartialUpdate [(''firstName'', JStr ''Aliya''), (''age'', JNum 32)]
               [(''firstName'', ''first_name'')] = Inr upd
         \<and> setCols upd = hd segs @ concat (map (\<lambda>s. '', '' @ s) (tl segs))
         \<and> length segs = 2
         \<and> length (values upd) = 2
         \<and> segs ! 0 = [CHR 0x22] @ ''first_name'' @ [CHR 0x22] @ ''=$1''
         \<and> segs ! 1 = [CHR 0x22] @ ''age'' @ [CHR 0x22] @ ''=$2''
         \<and> values upd ! 0 = JStr ''Aliya''
         \<and> values upd ! 1 = JNum 32)"
proof -
  let ?d = "[(''firstName'', JStr ''Aliya''), (''age'', JNum 32)] :: row"
  let ?m = "[(''firstName'', ''first_name'')]"
  have ne: "?d \<noteq> []" by simp
  have ni: "\<forall>k \<in> set (map fst ?d). \<not> is_array_index k"
    by (simp add: is_array_index_def is_digit_def)
  have m0: "map_of ?m ''firstName'' = Some ''first_name'' \<and> ''first_name'' \<noteq> []" by simp
  have m1: "map_of ?m ''age'' = None \<and> map_of Object_prototype ''age'' = None"
    by (simp add: Object_prototype_def)
  have s1: "show_nat (Suc 0) = ''1''" by (simp add: show_nat.simps digit_def)
  have s2: "show_nat (Suc (Suc 0)) = ''2''" by (simp add: show_nat.simps digit_def)
  from sqlForPartialUpdate_clause [OF ne, of ?m]
  obtain segs upd where h:
    "sqlForPartialUpdate ?d ?m = Inr upd"
    "setCols upd = hd segs @ concat (map (\<lambda>s. '', '' @ s) (tl segs))"
    "length segs = length ?d"
    "length (values upd) = length ?d"
    "\<forall>i < length ?d.
        segs ! i = [CHR 0x22] @ column ?m (fst (Object_entries ?d ! i))
                   @ [CHR 0x22] @ ''=$'' @ show_nat (i + 1)
      \<and> values upd ! i = snd (Object_entries ?d ! i)"
    "(\<forall>k \<in> set (map fst ?d). \<not> is_array_index k) \<longrightarrow> Object_entries ?d = ?d"
    "\<forall>k c. map_of ?m k = Some c \<and> c \<noteq> [] \<longrightarrow> column ?m k = c"
    "\<forall>k. map_of ?m k = None \<and> map_of Object_prototype k = None \<longrightarrow> column ?m k = k"
    by blast
  from h(6) ni have oe: "Object_entries ?d = ?d" by blast
  from h(7) m0 have c0: "column ?m ''firstName'' = ''first_name''" by blast
  from h(8) m1 have c1: "column ?m ''age'' = ''age''" by blast
  have i0: "0 < length ?d" and i1: "1 < length ?d" by simp_all
  from h(5) [rule_format, OF i0]
  have a: "segs ! 0 = [CHR 0x22] @ ''first_name'' @ [CHR 0x22] @ ''=$1''"
    "values upd ! 0 = JStr ''Aliya''"
    unfolding oe by (simp_all add: c0 s1)
  from h(5) [rule_format, OF i1]
  have b: "segs ! 1 = [CHR 0x22] @ ''age'' @ [CHR 0x22] @ ''=$2''"
    "values upd ! 1 = JNum 32"
    unfolding oe by (simp_all add: c1 s2)
  from h(3) h(4) have l: "length segs = 2" "length (values upd) = 2" by simp_all
  from ne oe h(1) h(2) l a b show ?thesis by blast
qed

text \<open>The first case of the helper's test file, evaluated.\<close>

lemma sqlForPartialUpdate_all_params:
  "sqlForPartialUpdate
     [(''firstName'', JStr ''UpdateFirstName''), (''lastName'', JStr ''UpdateLastName''),
      (''email'', JStr ''update@gmail.com''), (''isAdmin'', JStr ''true''),
      (''password'', JStr ''updatepassword'')]
     [(''firstName'', ''first_name''), (''lastName'', ''last_name''), (''isAdmin'', ''is_admin'')]
   = Inr \<lparr> setCols = dq @ ''first_name'' @ dq @ ''=$1, '' @ dq @ ''last_name'' @ dq @ ''=$2, ''
                 @ dq @ ''email'' @ dq @ ''=$3, '' @ dq @ ''is_admin'' @ dq @ ''=$4, ''
                 @ dq @ ''password'' @ dq @ ''=$5'',
             values = [JStr ''UpdateFirstName'', JStr ''UpdateLastName'',
                       JStr ''update@gmail.com'', JStr ''true'', JStr ''updatepassword''] \<rparr>"
  by (simp add: sqlForPartialUpdate_def Object_keys_def Object_values_def Object_entries_def
      is_array_index_def is_digit_def segment_def column_def Object_prototype_def
      show_nat.simps digit_def dq_def)

lemma join_Cons_nonempty: "x \<noteq> [] \<Longrightarrow> join sep (x # xs) \<noteq> []"
  by (cases xs) simp_all

lemma setCols_nonempty:
  assumes "sqlForPartialUpdate data jsToSql = Inr upd"
  shows "setCols upd \<noteq> []"
proof (cases "Object_entries data")
  case Nil
  with assms show ?thesis
    by (simp add: sqlForPartialUpdate_def Object_keys_def)
next
  case (Cons p ps)
  have "segment jsToSql (fst p) 0 \<noteq> []"
    by (simp add: segment_def dq_def)
  then have "join '', '' (segment jsToSql (fst p) 0 # map_idx (segment jsToSql) (Suc 0) (map fst ps)) \<noteq> []"
    by (rule join_Cons_nonempty)
  with assms Cons show ?thesis
    by (auto simp add: sqlForPartialUpdate_def Object_keys_def)
qed

lemma hash_password_Nil: "hash_password bcrypt_hash [] = Inr []"
  by (simp add: hash_password_def get_prop_def)

text \<open>
  C2. Whatever the column-name mapping, \<open>sqlForPartialUpdate\<close> on the empty update
  mapping fails with the bad-request error "No data"; \<open>Company.update\<close>, \<open>Job.update\<close>
  and \<open>User.update\<close> on empty data fail with it before any query is issued, and every
  UPDATE query that any of the three issues, on any data, has a non-empty SET clause.
\<close>

theorem empty_update_rejected:
  "sqlForPartialUpdate [] jsToSql = Inl (BadRequestError ''No data'')
   \<and> Company_update db handle [] = ([], Inl (BadRequestError ''No data''))
   \<and> Job_update db jid [] = ([], Inl (BadRequestError ''No data''))
   \<and> User_update bcrypt_hash db username [] = ([], Inl (BadRequestError ''No data''))
   \<and> (\<forall>q \<in> set (fst (Company_update db handle data)).
          \<exists>sc idx. sc \<noteq> [] \<and> fst q = Company_update_sql sc idx)
   \<and> (\<forall>q \<in> set (fst (Job_update db jid data)).
          \<exists>sc idx. sc \<noteq> [] \<and> fst q = Job_update_sql sc idx)
   \<and> (\<forall>q \<in> set (fst (User_update bcrypt_hash db username data)).
          \<exists>sc idx. sc \<noteq> [] \<and> fst q = User_update_sql sc idx)"
proof -
  have e: "sqlForPartialUpdate [] m = Inl (BadRequestError ''No data'')" for m
    by (simp add: sqlForPartialUpdate_def Object_keys_def Object_entries_def)
  have c0: "Company_update db handle [] = ([], Inl (BadRequestError ''No data''))"
    by (simp add: Company_update_def e)
  have j0: "Job_update db jid [] = ([], Inl (BadRequestError ''No data''))"
    by (simp add: Job_update_def e)
  have u0: "User_update bcrypt_hash db username [] = ([], Inl (BadRequestError ''No data''))"
    by (simp add: User_update_def hash_password_Nil e)
  have c: "\<forall>q \<in> set (fst (Company_update db handle data)).
             \<exists>sc idx. sc \<noteq> [] \<and> fst q = Company_update_sql sc idx"
  proof (cases "sqlForPartialUpdate data Company_jsToSql")
    case (Inl err)
    then show ?thesis by (simp add: Company_update_def)
  next
    case (Inr upd)
    from setCols_nonempty [OF Inr] Inr show ?thesis
      by (auto simp add: Company_update_def Let_def)
  qed
  have j: "\<forall>q \<in> set (fst (Job_update db jid data)).
             \<exists>sc idx. sc \<noteq> [] \<and> fst q = Job_update_sql sc idx"
  proof (cases "sqlForPartialUpdate data Job_jsToSql")
    case (Inl err)
    then show ?thesis by (simp add: Job_update_def)
  next
    case (Inr upd)
    from setCols_nonempty [OF Inr] Inr show ?thesis
      by (auto simp add: Job_update_def Let_def)
  qed
  have u: "\<forall>q \<in> set (fst (User_update bcrypt_hash db username data)).
             \<exists>sc idx. sc \<noteq> [] \<and> fst q = User_update_sql sc idx"
  proof (cases "hash_password bcrypt_hash data")
    case (Inl err)
    then show ?thesis by (simp add: User_update_def)
  next
    case hp: (Inr data')
    show ?thesis
    proof (cases "sqlForPartialUpdate data' User_jsToSql")
      case (Inl err)
      with hp show ?thesis by (simp add: User_update_def)
    next
      case (Inr upd)
      from setCols_nonempty [OF Inr] Inr hp show ?thesis
        by (auto simp add: User_update_def Let_def)
    qed
  qed
  from e c0 j0 u0 c j u show ?thesis by blast
qed

theorem empty_update_rejected_witness:
  "fst (Company_update (\<lambda>q. Inr []) (JStr ''c1'') [(''name'', JStr ''New'')])
     = [(Company_update_sql (dq @ ''name'' @ dq @ ''=$1'') ''$2'', [JStr ''New'', JStr ''c1''])]
   \<and> (\<exists>sc idx. sc \<noteq> []
         \<and> Company_update_sql (dq @ ''name'' @ dq @ ''=$1'') ''$2'' = Company_update_sql sc idx)
   \<and> Company_update (\<lambda>q. Inr []) (JStr ''c1'') [] = ([], Inl (BadRequestError ''No data''))"
proof -
  have "fst (Company_update (\<lambda>q. Inr []) (JStr ''c1'') [(''name'', JStr ''New'')])
     = [(Company_update_sql (dq @ ''name'' @ dq @ ''=$1'') ''$2'', [JStr ''New'', JStr ''c1''])]"
    by (simp add: Company_update_def sqlForPartialUpdate_def Object_keys_def Object_values_def
        Object_entries_def is_array_index_def is_digit_def segment_def column_def
        Object_prototype_def Company_jsToSql_def show_nat.simps digit_def Let_def)
  with empty_update_rejected
         [of Company_jsToSql "\<lambda>q. Inr []" "JStr ''c1''" "JNull" "\<lambda>v. Inr []" "JNull"
             "[(''name'', JStr ''New'')]"]
  show ?thesis by auto
qed


subsection \<open>Aggregation over the outer join\<close>

lemma filter_left_join:
  "filter (\<lambda>(l, r). P l) (left_join ls rs on) = left_join (filter P ls) rs on"
proof (induction ls)
  case Nil
  then show ?case by (simp add: left_join_def)
next
  case (Cons l ls)
  have one: "filter (\<lambda>(l', r). P l')
               (case filter (on l) rs of [] \<Rightarrow> [(l, None)] | m # ms \<Rightarrow> map (\<lambda>r. (l, Some r)) (m # ms))
             = (if P l then (case filter (on l) rs of [] \<Rightarrow> [(l, None)]
                              | m # ms \<Rightarrow> map (\<lambda>r. (l, Some r)) (m # ms)) else [])"
    by (cases "filter (on l) rs") (auto simp add: filter_map comp_def)
  from Cons one show ?case
    by (simp add: left_join_def)
qed

lemma left_join_single_none:
  "filter (on l) rs = [] \<Longrightarrow> left_join [l] rs on = [(l, None)]"
  by (simp add: left_join_def)

lemma left_join_single_some:
  "filter (on l) rs \<noteq> [] \<Longrightarrow> left_join [l] rs on = map (\<lambda>r. (l, Some r)) (filter (on l) rs)"
  by (cases "filter (on l) rs") (simp_all add: left_join_def)

lemma filter_single_holds: "filter P xs = [x] \<Longrightarrow> P x"
  by (metis filter_eq_ConsD)

lemma User_get_no_applications:
  assumes u: "filter (\<lambda>u. u_username u = un) (users st) = [u]"
    and na: "filter (\<lambda>a. a_username a = un) (applications st) = []"
  shows "User_get st un =
           Inr \<lparr> user_of = [(''username'', JStr (u_username u)),
                             (''firstName'', JStr (u_first_name u)),
                             (''lastName'', JStr (u_last_name u)),
                             (''email'', JStr (u_email u)),
                             (''isAdmin'', JBool (u_is_admin u))],
                  jobsApplied = [JNull] \<rparr>"
proof -
  from u have un: "u_username u = un" by (rule filter_single_holds)
  with na have "filter (\<lambda>a. u_username u = a_username a) (applications st) = []"
    by (auto simp add: filter_empty_conv)
  then have lj: "left_join [u] (applications st) (\<lambda>u a. u_username u = a_username a) = [(u, None)]"
    by (rule left_join_single_none)
  show ?thesis
    by (simp add: User_get_def User_get_rows_def filter_left_join u lj cell_def get_prop_def)
qed

lemma Company_get_with_jobs:
  assumes c: "filter (\<lambda>c. c_handle c = h) (companies st) = [c]"
    and js: "filter (\<lambda>j. j_company_handle j = h) (jobs st) \<noteq> []"
    and ids: "\<forall>j \<in> set (jobs st). j_id j \<noteq> 0"
  shows "Company_get st h =
           Inr \<lparr> company_of = [(''handle'', JStr (c_handle c)),
                                (''name'', JStr (c_name c)),
                                (''description'', JStr (c_description c)),
                                (''numEmployees'', cell JNum (c_num_employees c)),
                                (''logoUrl'', cell JStr (c_logo_url c))],
                  jobs_of = map (\<lambda>j. Some [(''id'', JNum (j_id j)),
                                             (''title'', JStr (j_title j)),
                                             (''salary'', cell JNum (j_salary j)),
                                             (''equity'', cell JStr (j_equity j))])
                                (filter (\<lambda>j. j_company_handle j = h) (jobs st)) \<rparr>"
proof -
  let ?js = "filter (\<lambda>j. j_company_handle j = h) (jobs st)"
  from c have ch: "c_handle c = h" by (rule filter_single_holds)
  then have feq: "filter (\<lambda>j. c_handle c = j_company_handle j) (jobs st) = ?js"
    by (intro filter_cong) auto
  with js have "filter (\<lambda>j. c_handle c = j_company_handle j) (jobs st) \<noteq> []" by simp
  then have "left_join [c] (jobs st) (\<lambda>c j. c_handle c = j_company_handle j)
                   = map (\<lambda>r. (c, Some r)) (filter (\<lambda>j. c_handle c = j_company_handle j) (jobs st))"
    by (rule left_join_single_some)
  with feq have lj: "left_join [c] (jobs st) (\<lambda>c j. c_handle c = j_company_handle j)
                   = map (\<lambda>r. (c, Some r)) ?js"
    by simp
  from js obtain j0 rest where jr: "?js = j0 # rest" by (cases ?js) auto
  have nz: "\<forall>j \<in> set ?js. j_id j \<noteq> 0" using ids by auto
  have rows: "Company_get_rows st h =
     map (\<lambda>j. [(''handle'', JStr (c_handle c)),
             (''name'', JStr (c_name c)),
             (''description'', JStr (c_description c)),
             (''numEmployees'', cell JNum (c_num_employees c)),
             (''logoUrl'', cell JStr (c_logo_url c)),
             (''id'', JNum (j_id j)),
             (''title'', JStr (j_title j)),
             (''salary'', cell JNum (j_salary j)),
             (''equity'', cell JStr (j_equity j))]) ?js"
    by (simp add: Company_get_rows_def filter_left_join c lj comp_def cell_def)
  show ?thesis
    using nz unfolding Company_get_def rows jr
    by (simp add: get_prop_def)
qed

text \<open>
  C3, as the claim states it, fails: for company \<open>c1\<close> without jobs \<open>Company.get\<close> returns
  \<open>jobs\<close> with one \<open>undefined\<close> entry, and for user \<open>u2\<close> without applications \<open>User.get\<close>
  returns \<open>jobsApplied\<close> with one \<open>null\<close> entry.
\<close>

theorem get_sentinel_counterexample:
  "Company_get store_without_jobs ''c1'' =
     Inr \<lparr> company_of = [(''handle'', JStr ''c1''), (''name'', JStr ''C1''),
                          (''description'', JStr ''Desc1''), (''numEmployees'', JNum 1),
                          (''logoUrl'', JStr ''http://c1.img'')],
            jobs_of = [None] \<rparr>
   \<and> User_get store_without_jobs ''u2'' =
     Inr \<lparr> user_of = [(''username'', JStr ''u2''), (''firstName'', JStr ''U2F''),
                       (''lastName'', JStr ''U2L''), (''email'', JStr ''user2@user.com''),
                       (''isAdmin'', JBool False)],
            jobsApplied = [JNull] \<rparr>"
  by (simp add: Company_get_def Company_get_rows_def User_get_def User_get_rows_def
      left_join_def cell_def get_prop_def store_without_jobs_def company_c1_def user_u2_def)

text \<open>
  C3, amended. For a user that exists and has no applications, \<open>User.get\<close> returns the
  user record with \<open>jobsApplied\<close> equal to the one-element list \<open>[null]\<close>: the row that
  the outer join produces for "no application" is passed through. For a company that
  exists and has at least one job, all job ids being non-zero, \<open>Company.get\<close> returns the
  company record with \<open>jobs\<close> holding exactly the \<open>{id, title, salary, equity}\<close> records
  of its jobs, in table order, and no placeholder.
\<close>

theorem get_aggregation:
  "(filter (\<lambda>u. u_username u = un) (users st) = [u]
      \<and> filter (\<lambda>a. a_username a = un) (applications st) = []
    \<longrightarrow> User_get st un =
           Inr \<lparr> user_of = [(''username'', JStr (u_username u)),
                             (''firstName'', JStr (u_first_name u)),
                             (''lastName'', JStr (u_last_name u)),
                             (''email'', JStr (u_email u)),
                             (''isAdmin'', JBool (u_is_admin u))],
                  jobsApplied = [JNull] \<rparr>)
   \<and> (filter (\<lambda>c. c_handle c = h) (companies st) = [c]
      \<and> filter (\<lambda>j. j_company_handle j = h) (jobs st) \<noteq> []
      \<and> (\<forall>j \<in> set (jobs st). j_id j \<noteq> 0)
    \<longrightarrow> Company_get st h =
           Inr \<lparr> company_of = [(''handle'', JStr (c_handle c)),
                                (''name'', JStr (c_name c)),
                                (''description'', JStr (c_description c)),
                                (''numEmployees'', cell JNum (c_num_employees c)),
                                (''logoUrl'', cell JStr (c_logo_url c))],
                  jobs_of = map (\<lambda>j. Some [(''id'', JNum (j_id j)),
                                             (''title'', JStr (j_title j)),
                                             (''salary'', cell JNum (j_salary j)),
                                             (''equity'', cell JStr (j_equity j))])
                                (filter (\<lambda>j. j_company_handle j = h) (jobs st)) \<rparr>)"
  using User_get_no_applications [of un st u] Company_get_with_jobs [of h st c]
  by blast

theorem get_aggregation_witness:
  "filter (\<lambda>u. u_username u = ''u2'') (users store_with_job) = [user_u2]
   \<and> filter (\<lambda>a. a_username a = ''u2'') (applications store_with_job) = []
   \<and> User_get store_with_job ''u2'' =
       Inr \<lparr> user_of = [(''username'', JStr ''u2''), (''firstName'', JStr ''U2F''),
                         (''lastName'', JStr ''U2L''), (''email'', JStr ''user2@user.com''),
                         (''isAdmin'', JBool False)],
              jobsApplied = [JNull] \<rparr>
   \<and> filter (\<lambda>c. c_handle c = ''c1'') (companies store_with_job) = [company_c1]
   \<and> filter (\<lambda>j. j_company_handle j = ''c1'') (jobs store_with_job) \<noteq> []
   \<and> map j_id (jobs store_with_job) = [1]
   \<and> Company_get store_with_job ''c1'' =
       Inr \<lparr> company_of = [(''handle'', JStr ''c1''), (''name'', JStr ''C1''),
                            (''description'', JStr ''Desc1''), (''numEmployees'', JNum 1),
                            (''logoUrl'', JStr ''http://c1.img'')],
              jobs_of = [Some [(''id'', JNum 1), (''title'', JStr ''j1''),
                               (''salary'', JNum 100000), (''equity'', JStr ''0'')]] \<rparr>"
proof -
  have h1: "filter (\<lambda>u. u_username u = ''u2'') (users store_with_job) = [user_u2]"
    by (simp add: store_with_job_def user_u2_def)
  have h2: "filter (\<lambda>a. a_username a = ''u2'') (applications store_with_job) = []"
    by (simp add: store_with_job_def)
  have h3: "filter (\<lambda>c. c_handle c = ''c1'') (companies store_with_job) = [company_c1]"
    by (simp add: store_with_job_def company_c1_def)
  have h4: "filter (\<lambda>j. j_company_handle j = ''c1'') (jobs store_with_job) \<noteq> []"
    by (simp add: store_with_job_def job_j1_def)
  have h5: "\<forall>j \<in> set (jobs store_with_job). j_id j \<noteq> 0"
    by (simp add: store_with_job_def job_j1_def)
  have js: "filter (\<lambda>j. j_company_handle j = ''c1'') (jobs store_with_job) = [job_j1]"
    by (simp add: store_with_job_def job_j1_def)
  from get_aggregation [of "''u2''" store_with_job user_u2 "''c1''" company_c1] h1 h2 h3 h4 h5
  have "User_get store_with_job ''u2'' =
           Inr \<lparr> user_of = [(''username'', JStr (u_username user_u2)),
                             (''firstName'', JStr (u_first_name user_u2)),
                             (''lastName'', JStr (u_last_name user_u2)),
                             (''email'', JStr (u_email user_u2)),
                             (''isAdmin'', JBool (u_is_admin user_u2))],
                  jobsApplied = [JNull] \<rparr>"
    and "Company_get store_with_job ''c1'' =
           Inr \<lparr> company_of = [(''handle'', JStr (c_handle company_c1)),
                                (''name'', JStr (c_name company_c1)),
                                (''description'', JStr (c_description company_c1)),
                                (''numEmployees'', cell JNum (c_num_employees company_c1)),
                                (''logoUrl'', cell JStr (c_logo_url company_c1))],
                  jobs_of = map (\<lambda>j. Some [(''id'', JNum (j_id j)),
                                             (''title'', JStr (j_title j)),
                                             (''salary'', cell JNum (j_salary j)),
                                             (''equity'', cell JStr (j_equity j))])
                                (filter (\<lambda>j. j_company_handle j = ''c1'') (jobs store_with_job)) \<rparr>"
    by blast+
  then have "User_get store_with_job ''u2'' =
       Inr \<lparr> user_of = [(''username'', JStr ''u2''), (''firstName'', JStr ''U2F''),
                         (''lastName'', JStr ''U2L''), (''email'', JStr ''user2@user.com''),
                         (''isAdmin'', JBool False)],
              jobsApplied = [JNull] \<rparr>"
    and "Company_get store_with_job ''c1'' =
       Inr \<lparr> company_of = [(''handle'', JStr ''c1''), (''name'', JStr ''C1''),
                            (''description'', JStr ''Desc1''), (''numEmployees'', JNum 1),
                            (''logoUrl'', JStr ''http://c1.img'')],
              jobs_of = [Some [(''id'', JNum 1), (''title'', JStr ''j1''),
                               (''salary'', JNum 100000), (''equity'', JStr ''0'')]] \<rparr>"
    by (simp_all add: js user_u2_def company_c1_def job_j1_def cell_def)
  moreover have "map j_id (jobs store_with_job) = [1]"
    by (simp add: store_with_job_def job_j1_def)
  ultimately show ?thesis using h1 h2 h3 h4 by blast
qed


subsection \<open>The updatable fields of a job\<close>

lemma job_field_not_inherited:
  "k \<in> {''title'', ''salary'', ''equity''} \<Longrightarrow> map_of Object_prototype k = None"
proof -
  have "map_of Object_prototype ''title'' = None"
    and "map_of Object_prototype ''salary'' = None"
    and "map_of Object_prototype ''equity'' = None"
    by (simp_all add: Object_prototype_def)
  then show "k \<in> {''title'', ''salary'', ''equity''} \<Longrightarrow> map_of Object_prototype k = None"
    by blast
qed

lemma job_field_no_index:
  "k \<in> {''title'', ''salary'', ''equity''} \<Longrightarrow> \<not> is_array_index k"
proof -
  have "\<not> is_array_index ''title''"
    and "\<not> is_array_index ''salary''"
    and "\<not> is_array_index ''equity''"
    by (simp_all add: is_array_index_def is_digit_def)
  then show "k \<in> {''title'', ''salary'', ''equity''} \<Longrightarrow> \<not> is_array_index k"
    by blast
qed

lemma column_Job_jsToSql:
  "column Job_jsToSql k = (case map_of Object_prototype k of None \<Rightarrow> k | Some member \<Rightarrow> member)"
proof -
  have t: "map_of Object_prototype ''title'' = None"
    and s: "map_of Object_prototype ''salary'' = None"
    and e: "map_of Object_prototype ''equity'' = None"
    by (simp_all add: job_field_not_inherited)
  show ?thesis
    using t s e by (auto simp add: column_def Job_jsToSql_def split: option.splits)
qed

lemma Job_update_sql_text:
  "Job_update_sql sc idx
     = ''UPDATE jobs '' @ [CHR 0x0A] @ ''                      SET '' @ sc
       @ '' '' @ [CHR 0x0A] @ ''                      WHERE id = '' @ idx
       @ '' '' @ [CHR 0x0A] @ ''                      RETURNING id, '' @ [CHR 0x0A]
       @ ''                                title, '' @ [CHR 0x0A]
       @ ''                                salary, '' @ [CHR 0x0A]
       @ ''                                equity, '' @ [CHR 0x0A]
       @ ''                                company_handle AS '' @ [CHR 0x22] @ ''companyHandle''
       @ [CHR 0x22]"
  by (simp add: Job_update_sql_def dq_def nl_def)

text \<open>
  C4, as the claim states it, fails: \<open>Job.update\<close> on data with the key \<open>id\<close>, or with the
  key \<open>company_handle\<close>, issues an UPDATE whose SET clause assigns that column.
\<close>

theorem Job_update_counterexample:
  "fst (Job_update no_rows (JNum 3) [(''id'', JNum 7)])
     = [(Job_update_sql ([CHR 0x22] @ ''id'' @ [CHR 0x22] @ ''=$1'') ''$2'', [JNum 7, JNum 3])]
   \<and> fst (Job_update no_rows (JNum 3) [(''company_handle'', JStr ''c2'')])
     = [(Job_update_sql ([CHR 0x22] @ ''company_handle'' @ [CHR 0x22] @ ''=$1'') ''$2'',
         [JStr ''c2'', JNum 3])]"
  by (simp add: Job_update_def sqlForPartialUpdate_def Object_keys_def Object_values_def
      Object_entries_def is_array_index_def is_digit_def segment_def column_Job_jsToSql
      Object_prototype_def show_nat.simps digit_def dq_def Let_def)

text \<open>
  C4, amended. \<open>Job.update\<close> does not filter the keys of its data: on non-empty data it
  issues one UPDATE whose SET clause has one segment per key, in \<open>Object.keys\<close> order,
  and for a key that does not name a member of \<open>Object.prototype\<close> the column of the
  segment is the key itself, whatever it is; the job id is bound as the last parameter,
  for the WHERE clause. When the keys of the data are among \<open>title\<close>, \<open>salary\<close> and
  \<open>equity\<close>, the segments follow the data in its own order and every one of them
  assigns one of the columns \<open>title\<close>, \<open>salary\<close> and \<open>equity\<close>.
\<close>

theorem Job_update_set_clause:
  assumes "data \<noteq> []"
  shows "\<exists>segs.
           fst (Job_update db jid data)
             = [(Job_update_sql (hd segs @ concat (map (\<lambda>s. '', '' @ s) (tl segs)))
                   (''$'' @ show_nat (length data + 1)),
                 map snd (Object_entries data) @ [jid])]
         \<and> (\<forall>sc idx. Job_update_sql sc idx
               = ''UPDATE jobs '' @ [CHR 0x0A] @ ''                      SET '' @ sc
                 @ '' '' @ [CHR 0x0A] @ ''                      WHERE id = '' @ idx
                 @ '' '' @ [CHR 0x0A] @ ''                      RETURNING id, '' @ [CHR 0x0A]
                 @ ''                                title, '' @ [CHR 0x0A]
                 @ ''                                salary, '' @ [CHR 0x0A]
                 @ ''                                equity, '' @ [CHR 0x0A]
                 @ ''                                company_handle AS '' @ [CHR 0x22]
                 @ ''companyHandle'' @ [CHR 0x22])
         \<and> length segs = length data
         \<and> (\<forall>i < length data.
               map_of Object_prototype (fst (Object_entries data ! i)) = None
               \<longrightarrow> segs ! i = [CHR 0x22] @ fst (Object_entries data ! i) @ [CHR 0x22]
                              @ ''=$'' @ show_nat (i + 1))
         \<and> (set (map fst data) \<subseteq> {''title'', ''salary'', ''equity''}
              \<longrightarrow> Object_entries data = data
                \<and> (\<forall>i < length data. \<exists>c \<in> {''title'', ''salary'', ''equity''}.
                      fst (data ! i) = c
                    \<and> segs ! i = [CHR 0x22] @ c @ [CHR 0x22] @ ''=$'' @ show_nat (i + 1)))"
proof -
  let ?es = "Object_entries data"
  let ?segs = "map_idx (segment Job_jsToSql) 0 (map fst ?es)"
  have len: "length ?es = length data" by (rule length_Object_entries)
  have u: "sqlForPartialUpdate data Job_jsToSql
             = Inr \<lparr> setCols = join '', '' ?segs, values = map snd ?es \<rparr>"
    using assms by (rule sqlForPartialUpdate_nonempty)
  have ls: "length ?segs = length data"
    by (simp add: length_map_idx len)
  with assms obtain s ss where sss: "?segs = s # ss" by (cases ?segs) auto
  have j: "join '', '' ?segs = hd ?segs @ concat (map (\<lambda>s. '', '' @ s) (tl ?segs))"
    unfolding sss by (simp add: join_Cons)
  have q: "fst (Job_update db jid data)
             = [(Job_update_sql (hd ?segs @ concat (map (\<lambda>s. '', '' @ s) (tl ?segs)))
                   (''$'' @ show_nat (length data + 1)),
                 map snd ?es @ [jid])]"
    unfolding j [symmetric] by (simp add: Job_update_def u Let_def len)
  have nth: "\<forall>i < length data.
               map_of Object_prototype (fst (?es ! i)) = None
               \<longrightarrow> ?segs ! i = [CHR 0x22] @ fst (?es ! i) @ [CHR 0x22]
                              @ ''=$'' @ show_nat (i + 1)"
    by (simp add: nth_map_idx segment_def column_Job_jsToSql len dq_def)
  have sub: "set (map fst data) \<subseteq> {''title'', ''salary'', ''equity''}
              \<longrightarrow> ?es = data
                \<and> (\<forall>i < length data. \<exists>c \<in> {''title'', ''salary'', ''equity''}.
                      fst (data ! i) = c
                    \<and> ?segs ! i = [CHR 0x22] @ c @ [CHR 0x22] @ ''=$'' @ show_nat (i + 1))"
  proof
    assume s: "set (map fst data) \<subseteq> {''title'', ''salary'', ''equity''}"
    then have "\<forall>k \<in> set (map fst data). \<not> is_array_index k"
      using job_field_no_index by blast
    then have e: "?es = data" by (rule Object_entries_no_index)
    have "\<forall>i < length data. \<exists>c \<in> {''title'', ''salary'', ''equity''}.
                      fst (data ! i) = c
                    \<and> ?segs ! i = [CHR 0x22] @ c @ [CHR 0x22] @ ''=$'' @ show_nat (i + 1)"
    proof (intro allI impI)
      fix i
      assume i: "i < length data"
      then have "fst (data ! i) \<in> set (map fst data)" by simp
      with s have m: "fst (data ! i) \<in> {''title'', ''salary'', ''equity''}" by blast
      then have "map_of Object_prototype (fst (data ! i)) = None"
        by (rule job_field_not_inherited)
      with nth i e
      have "?segs ! i = [CHR 0x22] @ fst (data ! i) @ [CHR 0x22] @ ''=$'' @ show_nat (i + 1)"
        by simp
      with m show "\<exists>c \<in> {''title'', ''salary'', ''equity''}.
                      fst (data ! i) = c
                    \<and> ?segs ! i = [CHR 0x22] @ c @ [CHR 0x22] @ ''=$'' @ show_nat (i + 1)"
        by blast
    qed
    with e show "?es = data
                \<and> (\<forall>i < length data. \<exists>c \<in> {''title'', ''salary'', ''equity''}.
                      fst (data ! i) = c
                    \<and> ?segs ! i = [CHR 0x22] @ c @ [CHR 0x22] @ ''=$'' @ show_nat (i + 1))"
      by blast
  qed
  show ?thesis
    apply (rule exI [of _ ?segs])
    apply (intro conjI)
    apply (rule q)
    using Job_update_sql_text apply blast
    apply (rule ls)
    apply (rule nth)
    apply (rule sub)
    done
qed

theorem Job_update_set_clause_witness:
  "[(''title'', JStr ''New''), (''salary'', JNum 200000)] \<noteq> ([] :: row)
   \<and> set (map fst [(''title'', JStr ''New''), (''salary'', JNum 200000)])
        \<subseteq> {''title'', ''salary'', ''equity''}
   \<and> (\<exists>segs.
         fst (Job_update no_rows (JStr ''1'') [(''title'', JStr ''New''), (''salary'', JNum 200000)])
           = [(Job_update_sql (hd segs @ concat (map (\<lambda>s. '', '' @ s) (tl segs))) ''$3'',
               [JStr ''New'', JNum 200000, JStr ''1''])]
       \<and> length segs = 2
       \<and> segs ! 0 = [CHR 0x22] @ ''title'' @ [CHR 0x22] @ ''=$1''
       \<and> segs ! 1 = [CHR 0x22] @ ''salary'' @ [CHR 0x22] @ ''=$2'')
   \<and> map_of Object_prototype ''id'' = None
   \<and> (\<exists>segs.
         fst (Job_update no_rows (JStr ''1'') [(''id'', JNum 7)])
           = [(Job_update_sql (hd segs @ concat (map (\<lambda>s. '', '' @ s) (tl segs))) ''$2'',
               [JNum 7, JStr ''1''])]
       \<and> length segs = 1
       \<and> segs ! 0 = [CHR 0x22] @ ''id'' @ [CHR 0x22] @ ''=$1'')"
proof -
  let ?d = "[(''title'', JStr ''New''), (''salary'', JNum 200000)] :: row"
  let ?c = "[(''id'', JNum 7)] :: row"
  have ne: "?d \<noteq> []" and nc: "?c \<noteq> []" by simp_all
  have sub: "set (map fst ?d) \<subseteq> {''title'', ''salary'', ''equity''}" by simp
  have s1: "show_nat (Suc 0) = ''1''" by (simp add: show_nat.simps digit_def)
  have s2: "show_nat (Suc (Suc 0)) = ''2''" by (simp add: show_nat.simps digit_def)
  have s3: "show_nat (length ?d + 1) = ''3''" by (simp add: show_nat.simps digit_def)
  have s2': "show_nat (length ?c + 1) = ''2''" by (simp add: show_nat.simps digit_def)
  have ec: "Object_entries ?c = ?c"
    by (simp add: Object_entries_def is_array_index_def is_digit_def)
  have pc: "map_of Object_prototype ''id'' = None"
    by (simp add: Object_prototype_def)
  from Job_update_set_clause [OF ne, of no_rows "JStr ''1''"]
  obtain segs where h:
    "fst (Job_update no_rows (JStr ''1'') ?d)
       = [(Job_update_sql (hd segs @ concat (map (\<lambda>s. '', '' @ s) (tl segs)))
             (''$'' @ show_nat (length ?d + 1)),
           map snd (Object_entries ?d) @ [JStr ''1''])]"
    "length segs = length ?d"
    "set (map fst ?d) \<subseteq> {''title'', ''salary'', ''equity''}
       \<longrightarrow> Object_entries ?d = ?d
         \<and> (\<forall>i < length ?d. \<exists>c \<in> {''title'', ''salary'', ''equity''}.
               fst (?d ! i) = c
             \<and> segs ! i = [CHR 0x22] @ c @ [CHR 0x22] @ ''=$'' @ show_nat (i + 1))"
    by blast
  from h(3) sub have ed: "Object_entries ?d = ?d"
    and all: "\<forall>i < length ?d. \<exists>c \<in> {''title'', ''salary'', ''equity''}.
               fst (?d ! i) = c
             \<and> segs ! i = [CHR 0x22] @ c @ [CHR 0x22] @ ''=$'' @ show_nat (i + 1)"
    by blast+
  have i0: "0 < length ?d" and i1: "1 < length ?d" by simp_all
  from all [rule_format, OF i0] have a: "segs ! 0 = [CHR 0x22] @ ''title'' @ [CHR 0x22] @ ''=$1''"
    by (auto simp add: s1)
  from all [rule_format, OF i1] have b: "segs ! 1 = [CHR 0x22] @ ''salary'' @ [CHR 0x22] @ ''=$2''"
    by (auto simp add: s2)
  from h(1) have c: "fst (Job_update no_rows (JStr ''1'') ?d)
           = [(Job_update_sql (hd segs @ concat (map (\<lambda>s. '', '' @ s) (tl segs))) ''$3'',
               [JStr ''New'', JNum 200000, JStr ''1''])]"
    unfolding s3 ed by simp
  from h(2) have l: "length segs = 2" by simp
  from Job_update_set_clause [OF nc, of no_rows "JStr ''1''"]
  obtain segs' where h':
    "fst (Job_update no_rows (JStr ''1'') ?c)
       = [(Job_update_sql (hd segs' @ concat (map (\<lambda>s. '', '' @ s) (tl segs')))
             (''$'' @ show_nat (length ?c + 1)),
           map snd (Object_entries ?c) @ [JStr ''1''])]"
    "length segs' = length ?c"
    "\<forall>i < length ?c.
        map_of Object_prototype (fst (Object_entries ?c ! i)) = None
        \<longrightarrow> segs' ! i = [CHR 0x22] @ fst (Object_entries ?c ! i) @ [CHR 0x22]
                        @ ''=$'' @ show_nat (i + 1)"
    by blast
  have j0: "0 < length ?c" by simp
  from h'(3) [rule_format, OF j0]
  have a': "segs' ! 0 = [CHR 0x22] @ ''id'' @ [CHR 0x22] @ ''=$1''"
    unfolding ec by (simp add: pc s1)
  from h'(1) have c': "fst (Job_update no_rows (JStr ''1'') ?c)
           = [(Job_update_sql (hd segs' @ concat (map (\<lambda>s. '', '' @ s) (tl segs'))) ''$2'',
               [JNum 7, JStr ''1''])]"
    unfolding s2' ec by simp
  from h'(2) have l': "length segs' = 1" by simp
  from ne sub a b c l pc a' c' l' show ?thesis by blast
qed

text \<open>
  A key of the data that names a member of \<open>Object.prototype\<close> gets the text of that
  member as its column.
\<close>

lemma Job_update_inherited_key:
  "fst (Job_update no_rows (JNum 3) [(''constructor'', JStr ''x'')])
     = [(Job_update_sql ([CHR 0x22] @ ''function Object() { [native code] }'' @ [CHR 0x22] @ ''=$1'')
           ''$2'',
         [JStr ''x'', JNum 3])]"
  by (simp add: Job_update_def sqlForPartialUpdate_def Object_keys_def Object_values_def
      Object_entries_def is_array_index_def is_digit_def segment_def column_Job_jsToSql
      Object_prototype_def native_function_def show_nat.simps digit_def dq_def Let_def)

subsection \<open>The text of the filtered listings\<close>

lemma get_prop_js_delete:
  "get_prop (js_delete obj k) k' = (if k' = k then JUndefined else get_prop obj k')"
  by (induction obj) (auto simp add: get_prop_def js_delete_def)

text \<open>
  C5. The listings put the criteria values into the query text and pass no bound
  parameter: two company searches that both give only \<open>name\<close>, and two job searches that
  both give only \<open>title\<close>, issue different texts, each containing the value.
\<close>

theorem findAll_interpolates:
  "fst (Company_findAll coerced_gt db [(''name'', JStr ''net'')])
     = [(Company_findAll_sql (''WHERE name ilike '' @ [CHR 0x27] @ ''%net%'' @ [CHR 0x27]), [])]
   \<and> fst (Company_findAll coerced_gt db [(''name'', JStr (''x'' @ [CHR 0x27] @ '' or 1=1 --''))])
     = [(Company_findAll_sql
           (''WHERE name ilike '' @ [CHR 0x27] @ ''%x'' @ [CHR 0x27] @ '' or 1=1 --%'' @ [CHR 0x27]), [])]
   \<and> Company_findAll_sql (''WHERE name ilike '' @ [CHR 0x27] @ ''%net%'' @ [CHR 0x27])
     \<noteq> Company_findAll_sql
           (''WHERE name ilike '' @ [CHR 0x27] @ ''%x'' @ [CHR 0x27] @ '' or 1=1 --%'' @ [CHR 0x27])
   \<and> fst (Job_findAll db [(''title'', JStr ''j1'')])
     = [(Job_findAll_sql (''WHERE title ilike '' @ [CHR 0x27] @ ''%j1%'' @ [CHR 0x27]), [])]
   \<and> fst (Job_findAll db [(''title'', JStr ''j2'')])
     = [(Job_findAll_sql (''WHERE title ilike '' @ [CHR 0x27] @ ''%j2%'' @ [CHR 0x27]), [])]
   \<and> Job_findAll_sql (''WHERE title ilike '' @ [CHR 0x27] @ ''%j1%'' @ [CHR 0x27])
     \<noteq> Job_findAll_sql (''WHERE title ilike '' @ [CHR 0x27] @ ''%j2%'' @ [CHR 0x27])"
  by (simp add: Company_findAll_def Company_where_def Company_findAll_sql_def
      Job_findAll_def Job_where_def Job_findAll_sql_def add_condition_def get_prop_def Let_def)

text \<open>
  C6. With \<open>minEmployees\<close> 5 and \<open>maxEmployees\<close> 0 the range check is not reached, and
  with the strings \<open>"10"\<close> and \<open>"9"\<close> it compares code units: in both cases the minimum
  is greater than the maximum, yet \<open>Company.findAll\<close> issues its query.
\<close>

theorem Company_findAll_range_unchecked:
  "Company_findAll coerced_gt db [(''minEmployees'', JNum 5), (''maxEmployees'', JNum 0)]
     = ([(Company_findAll_sql ''WHERE num_employees >= 5'', [])],
        db (Company_findAll_sql ''WHERE num_employees >= 5'', []))
   \<and> Company_findAll coerced_gt db [(''minEmployees'', JStr ''10''), (''maxEmployees'', JStr ''9'')]
     = ([(Company_findAll_sql ''WHERE num_employees >= 10and num_employees <= 9'', [])],
        db (Company_findAll_sql ''WHERE num_employees >= 10and num_employees <= 9'', []))"
  by (simp add: Company_findAll_def Company_where_def add_condition_def get_prop_def js_gt_def
      show_int_def show_nat.simps digit_def Let_def)

lemma Company_findAll_range_checked:
  assumes "get_prop query ''minEmployees'' = JNum a" "get_prop query ''maxEmployees'' = JNum b"
    and "a \<noteq> 0" "b \<noteq> 0" "b < a"
  shows "Company_findAll coerced_gt db query
           = ([], Inl (BadRequestError ''Min Employees cannot be greater than Max Employees''))"
  using assms by (simp add: Company_findAll_def js_gt_def)







text \<open>
  C10. A criterion whose value is the number 0 or the empty string counts as absent:
  \<open>Company.findAll\<close> (for \<open>name\<close>, \<open>minEmployees\<close>, \<open>maxEmployees\<close>) and \<open>Job.findAll\<close> (for
  \<open>title\<close>, \<open>minSalary\<close>) do exactly what they do on the criteria without that key, so no
  condition is added for it; and when either employee bound is 0 the range check is
  skipped and the query is issued.
\<close>

theorem falsy_criterion_absent:
  "(k \<in> {''name'', ''minEmployees'', ''maxEmployees''}
      \<and> (get_prop query k = JNum 0 \<or> get_prop query k = JStr [])
    \<longrightarrow> Company_findAll coerced_gt db query = Company_findAll coerced_gt db (js_delete query k))
   \<and> (k \<in> {''title'', ''minSalary''}
      \<and> (get_prop query k = JNum 0 \<or> get_prop query k = JStr [])
    \<longrightarrow> Job_findAll db query = Job_findAll db (js_delete query k))
   \<and> (get_prop query ''minEmployees'' = JNum 0 \<or> get_prop query ''maxEmployees'' = JNum 0
    \<longrightarrow> fst (Company_findAll coerced_gt db query)
          = [(Company_findAll_sql (Company_where query), [])])"
proof (intro conjI impI)
  assume "k \<in> {''name'', ''minEmployees'', ''maxEmployees''}
      \<and> (get_prop query k = JNum 0 \<or> get_prop query k = JStr [])"
  then have f: "\<not> truthy (get_prop query k)"
    and k: "k = ''name'' \<or> k = ''minEmployees'' \<or> k = ''maxEmployees''"
    by auto
  have w: "Company_where (js_delete query k) = Company_where query"
    using f k by (auto simp add: Company_where_def get_prop_js_delete Let_def)
  show "Company_findAll coerced_gt db query = Company_findAll coerced_gt db (js_delete query k)"
    using f k unfolding Company_findAll_def w
    by (auto simp add: get_prop_js_delete)
next
  assume "k \<in> {''title'', ''minSalary''}
      \<and> (get_prop query k = JNum 0 \<or> get_prop query k = JStr [])"
  then have f: "\<not> truthy (get_prop query k)" and k: "k = ''title'' \<or> k = ''minSalary''"
    by auto
  have w: "Job_where (js_delete query k) = Job_where query"
    using f k by (auto simp add: Job_where_def get_prop_js_delete Let_def)
  show "Job_findAll db query = Job_findAll db (js_delete query k)"
    unfolding Job_findAll_def w ..
next
  assume "get_prop query ''minEmployees'' = JNum 0 \<or> get_prop query ''maxEmployees'' = JNum 0"
  then show "fst (Company_findAll coerced_gt db query)
          = [(Company_findAll_sql (Company_where query), [])]"
    by (auto simp add: Company_findAll_def Let_def)
qed

theorem falsy_criterion_absent_witness:
  "''maxEmployees'' \<in> {''name'', ''minEmployees'', ''maxEmployees''}
   \<and> get_prop [(''minEmployees'', JNum 5), (''maxEmployees'', JNum 0)] ''maxEmployees'' = JNum 0
   \<and> Company_findAll (\<lambda>a b. False) (\<lambda>q. Inr [])
        [(''minEmployees'', JNum 5), (''maxEmployees'', JNum 0)]
      = Company_findAll (\<lambda>a b. False) (\<lambda>q. Inr []) [(''minEmployees'', JNum 5)]
   \<and> fst (Company_findAll (\<lambda>a b. False) (\<lambda>q. Inr [])
        [(''minEmployees'', JNum 5), (''maxEmployees'', JNum 0)])
      = [(Company_findAll_sql ''WHERE num_employees >= 5'', [])]
   \<and> ''title'' \<in> {''title'', ''minSalary''}
   \<and> get_prop [(''title'', JStr []), (''minSalary'', JNum 7)] ''title'' = JStr []
   \<and> Job_findAll (\<lambda>q. Inr []) [(''title'', JStr []), (''minSalary'', JNum 7)]
      = Job_findAll (\<lambda>q. Inr []) [(''minSalary'', JNum 7)]"
proof -
  let ?c = "[(''minEmployees'', JNum 5), (''maxEmployees'', JNum 0)] :: row"
  let ?j = "[(''title'', JStr []), (''minSalary'', JNum 7)] :: row"
  have k1: "''maxEmployees'' \<in> {''name'', ''minEmployees'', ''maxEmployees''}" by simp
  have k2: "''title'' \<in> {''title'', ''minSalary''}" by simp
  have g1: "get_prop ?c ''maxEmployees'' = JNum 0" by (simp add: get_prop_def)
  have g2: "get_prop ?j ''title'' = JStr []" by (simp add: get_prop_def)
  have d1: "js_delete ?c ''maxEmployees'' = [(''minEmployees'', JNum 5)]"
    by (simp add: js_delete_def)
  have d2: "js_delete ?j ''title'' = [(''minSalary'', JNum 7)]"
    by (simp add: js_delete_def)
  have w: "Company_where ?c = ''WHERE num_employees >= 5''"
    by (simp add: Company_where_def add_condition_def get_prop_def show_int_def
        show_nat.simps digit_def Let_def)
  from falsy_criterion_absent [of "''maxEmployees''" ?c "\<lambda>a b. False" "\<lambda>q. Inr []"] k1 g1
  have a: "Company_findAll (\<lambda>a b. False) (\<lambda>q. Inr []) ?c
             = Company_findAll (\<lambda>a b. False) (\<lambda>q. Inr []) (js_delete ?c ''maxEmployees'')"
    and b: "fst (Company_findAll (\<lambda>a b. False) (\<lambda>q. Inr []) ?c)
             = [(Company_findAll_sql (Company_where ?c), [])]"
    by blast+
  from falsy_criterion_absent [of "''title''" ?j "\<lambda>a b. False" "\<lambda>q. Inr []"] k2 g2
  have c: "Job_findAll (\<lambda>q. Inr []) ?j = Job_findAll (\<lambda>q. Inr []) (js_delete ?j ''title'')"
    by blast
  from a b c k1 k2 g1 g2 show ?thesis
    unfolding d1 d2 w by blast
qed


subsection \<open>Credentials\<close>

lemma js_delete_no_key: "k \<notin> fst ` set (js_delete obj k)"
  by (auto simp add: js_delete_def)

lemma User_authenticate_cases:
  "User_authenticate bcrypt_compare st un pw =
     (case filter (\<lambda>u. u_username u = un) (users st) of
        [] \<Rightarrow> Inl (UnauthorizedError ''Invalid username/password'')
      | u # us \<Rightarrow>
          if bcrypt_compare pw (JStr (u_password u))
          then Inr [(''username'', JStr (u_username u)),
                    (''firstName'', JStr (u_first_name u)),
                    (''lastName'', JStr (u_last_name u)),
                    (''email'', JStr (u_email u)),
                    (''isAdmin'', JBool (u_is_admin u))]
          else Inl (UnauthorizedError ''Invalid username/password''))"
  by (cases "filter (\<lambda>u. u_username u = un) (users st)")
     (simp_all add: User_authenticate_def User_authenticate_rows_def get_prop_def js_delete_def)

text \<open>
  C8. \<open>User.authenticate\<close> fails with the same unauthorized error, "Invalid
  username/password", when no user has the username and when the first user found does
  not pass \<open>bcrypt.compare\<close>; it fails with no other error; and when the comparison
  succeeds it returns the row of the user without the \<open>password\<close> property.
\<close>

theorem authenticate_unauthorized:
  "(filter (\<lambda>u. u_username u = un) (users st) = []
      \<longrightarrow> User_authenticate bcrypt_compare st un pw
            = Inl (UnauthorizedError ''Invalid username/password''))
   \<and> (filter (\<lambda>u. u_username u = un) (users st) = u # us
        \<and> \<not> bcrypt_compare pw (JStr (u_password u))
      \<longrightarrow> User_authenticate bcrypt_compare st un pw
            = Inl (UnauthorizedError ''Invalid username/password''))
   \<and> (filter (\<lambda>u. u_username u = un) (users st) = u # us
        \<and> bcrypt_compare pw (JStr (u_password u))
      \<longrightarrow> User_authenticate bcrypt_compare st un pw
            = Inr [(''username'', JStr (u_username u)),
                   (''firstName'', JStr (u_first_name u)),
                   (''lastName'', JStr (u_last_name u)),
                   (''email'', JStr (u_email u)),
                   (''isAdmin'', JBool (u_is_admin u))])
   \<and> (User_authenticate bcrypt_compare st un pw = Inl e
      \<longrightarrow> e = UnauthorizedError ''Invalid username/password'')
   \<and> (User_authenticate bcrypt_compare st un pw = Inr r
      \<longrightarrow> ''password'' \<notin> fst ` set r)"
proof (intro conjI impI)
  assume "filter (\<lambda>u. u_username u = un) (users st) = []"
  then show "User_authenticate bcrypt_compare st un pw
               = Inl (UnauthorizedError ''Invalid username/password'')"
    by (simp add: User_authenticate_cases)
next
  assume "filter (\<lambda>u. u_username u = un) (users st) = u # us
            \<and> \<not> bcrypt_compare pw (JStr (u_password u))"
  then show "User_authenticate bcrypt_compare st un pw
               = Inl (UnauthorizedError ''Invalid username/password'')"
    by (simp add: User_authenticate_cases)
next
  assume "filter (\<lambda>u. u_username u = un) (users st) = u # us
            \<and> bcrypt_compare pw (JStr (u_password u))"
  then show "User_authenticate bcrypt_compare st un pw
            = Inr [(''username'', JStr (u_username u)),
                   (''firstName'', JStr (u_first_name u)),
                   (''lastName'', JStr (u_last_name u)),
                   (''email'', JStr (u_email u)),
                   (''isAdmin'', JBool (u_is_admin u))]"
    by (simp add: User_authenticate_cases)
next
  assume "User_authenticate bcrypt_compare st un pw = Inl e"
  then show "e = UnauthorizedError ''Invalid username/password''"
    by (auto simp add: User_authenticate_cases split: list.splits if_splits)
next
  assume "User_authenticate bcrypt_compare st un pw = Inr r"
  then show "''password'' \<notin> fst ` set r"
    by (auto simp add: User_authenticate_cases split: list.splits if_splits)
qed

theorem authenticate_unauthorized_witness:
  "filter (\<lambda>u. u_username u = ''nope'') (users store_with_job) = []
   \<and> User_authenticate (\<lambda>p h. h = JStr (''$2b$'' @ p)) store_with_job ''nope'' ''hash''
       = Inl (UnauthorizedError ''Invalid username/password'')
   \<and> filter (\<lambda>u. u_username u = ''u2'') (users store_with_job) = [user_u2]
   \<and> \<not> (JStr (u_password user_u2) = JStr (''$2b$'' @ ''wrong''))
   \<and> User_authenticate (\<lambda>p h. h = JStr (''$2b$'' @ p)) store_with_job ''u2'' ''wrong''
       = Inl (UnauthorizedError ''Invalid username/password'')
   \<and> JStr (u_password user_u2) = JStr (''$2b$'' @ ''hash'')
   \<and> User_authenticate (\<lambda>p h. h = JStr (''$2b$'' @ p)) store_with_job ''u2'' ''hash''
       = Inr [(''username'', JStr ''u2''), (''firstName'', JStr ''U2F''),
              (''lastName'', JStr ''U2L''), (''email'', JStr ''user2@user.com''),
              (''isAdmin'', JBool False)]"
proof -
  let ?cmp = "\<lambda>p h. h = JStr (''$2b$'' @ p)"
  have n: "filter (\<lambda>u. u_username u = ''nope'') (users store_with_job) = []"
    by (simp add: store_with_job_def user_u2_def)
  have f: "filter (\<lambda>u. u_username u = ''u2'') (users store_with_job) = user_u2 # []"
    by (simp add: store_with_job_def user_u2_def)
  have w: "\<not> (JStr (u_password user_u2) = JStr (''$2b$'' @ ''wrong''))"
    by (simp add: user_u2_def)
  have g: "JStr (u_password user_u2) = JStr (''$2b$'' @ ''hash'')"
    by (simp add: user_u2_def)
  from authenticate_unauthorized [of "''nope''" store_with_job ?cmp "''hash''"] n
  have a: "User_authenticate ?cmp store_with_job ''nope'' ''hash''
             = Inl (UnauthorizedError ''Invalid username/password'')"
    by blast
  from authenticate_unauthorized [of "''u2''" store_with_job ?cmp "''wrong''" user_u2 "[]"] f w
  have b: "User_authenticate ?cmp store_with_job ''u2'' ''wrong''
             = Inl (UnauthorizedError ''Invalid username/password'')"
    by blast
  from authenticate_unauthorized [of "''u2''" store_with_job ?cmp "''hash''" user_u2 "[]"] f g
  have "User_authenticate ?cmp store_with_job ''u2'' ''hash''
            = Inr [(''username'', JStr (u_username user_u2)),
                   (''firstName'', JStr (u_first_name user_u2)),
                   (''lastName'', JStr (u_last_name user_u2)),
                   (''email'', JStr (u_email user_u2)),
                   (''isAdmin'', JBool (u_is_admin user_u2))]"
    by blast
  then have c: "User_authenticate ?cmp store_with_job ''u2'' ''hash''
       = Inr [(''username'', JStr ''u2''), (''firstName'', JStr ''U2F''),
              (''lastName'', JStr ''U2L''), (''email'', JStr ''user2@user.com''),
              (''isAdmin'', JBool False)]"
    by (simp add: user_u2_def)
  from n f w g a b c show ?thesis by blast
qed


lemma User_update_result:
  assumes "snd (User_update bcrypt_hash db un data) = Inr r"
  shows "\<exists>user'. r = js_delete user' ''password''"
proof (cases "hash_password bcrypt_hash data")
  case (Inl e)
  with assms show ?thesis by (simp add: User_update_def)
next
  case hp: (Inr data')
  show ?thesis
  proof (cases "sqlForPartialUpdate data' User_jsToSql")
    case (Inl e)
    with assms hp show ?thesis by (simp add: User_update_def)
  next
    case (Inr upd)
    with assms hp show ?thesis
      by (auto simp add: User_update_def Let_def split: sum.splits)
  qed
qed

lemma User_register_result:
  assumes "User_register bcrypt_hash st reg = Inr (st', r)"
  shows "\<exists>h. bcrypt_hash (JStr (reg_password reg)) = Inr h
           \<and> users st' = users st @ [\<lparr> u_username = reg_username reg, u_password = h,
                                        u_first_name = reg_firstName reg,
                                        u_last_name = reg_lastName reg,
                                        u_email = reg_email reg,
                                        u_is_admin = reg_isAdmin reg \<rparr>]
           \<and> r = [(''username'', JStr (reg_username reg)),
                  (''firstName'', JStr (reg_firstName reg)),
                  (''lastName'', JStr (reg_lastName reg)),
                  (''email'', JStr (reg_email reg)),
                  (''isAdmin'', JBool (reg_isAdmin reg))]"
  using assms
  by (auto simp add: User_register_def Let_def split: list.splits sum.splits)

text \<open>
  C9, as the claim states it, fails: \<open>User.update\<close> on data whose \<open>password\<close> is the
  empty string skips the hashing and binds the empty string itself for the password
  column, where the hash of it would be another text.
\<close>

theorem User_update_counterexample:
  "fst (User_update sample_hash no_rows (JStr ''u2'') [(''password'', JStr [])])
     = [(User_update_sql ([CHR 0x22] @ ''password'' @ [CHR 0x22] @ ''=$1'') ''$2'',
         [JStr [], JStr ''u2''])]
   \<and> sample_hash (JStr []) = Inr ''$2b$''"
  by (simp add: User_update_def hash_password_def get_prop_def sqlForPartialUpdate_def
      Object_keys_def Object_values_def Object_entries_def is_array_index_def is_digit_def
      segment_def column_def User_jsToSql_def Object_prototype_def sample_hash_def
      show_nat.simps digit_def dq_def Let_def)

text \<open>
  C9, amended. Whenever \<open>User.register\<close>, \<open>User.update\<close> or \<open>User.authenticate\<close>
  succeeds, the record it returns has no \<open>password\<close> property. What \<open>register\<close> stores
  as the password is the hash that \<open>bcrypt.hash\<close> returned, and what \<open>update\<close> binds
  for a non-empty \<open>password\<close> of its data is that hash too.
\<close>

theorem returned_user_without_password:
  "(User_register bcrypt_hash st reg = Inr (st', r)
      \<longrightarrow> ''password'' \<notin> fst ` set r
          \<and> (\<exists>h. bcrypt_hash (JStr (reg_password reg)) = Inr h
                \<and> map u_password (users st') = map u_password (users st) @ [h]))
   \<and> (snd (User_update bcrypt_hash db un data) = Inr r
      \<longrightarrow> ''password'' \<notin> fst ` set r)
   \<and> (truthy (get_prop data ''password'') \<and> bcrypt_hash (get_prop data ''password'') = Inr h
      \<longrightarrow> map snd (fst (User_update bcrypt_hash db un data))
            = [map snd (Object_entries (assign data ''password'' (JStr h))) @ [un]])
   \<and> (User_authenticate bcrypt_compare st name pw = Inr r
      \<longrightarrow> ''password'' \<notin> fst ` set r)"
proof -
  have reg: "User_register bcrypt_hash st reg = Inr (st', r)
      \<longrightarrow> ''password'' \<notin> fst ` set r
          \<and> (\<exists>h. bcrypt_hash (JStr (reg_password reg)) = Inr h
                \<and> map u_password (users st') = map u_password (users st) @ [h])"
  proof
    assume "User_register bcrypt_hash st reg = Inr (st', r)"
    from User_register_result [OF this]
    show "''password'' \<notin> fst ` set r
          \<and> (\<exists>h. bcrypt_hash (JStr (reg_password reg)) = Inr h
                \<and> map u_password (users st') = map u_password (users st) @ [h])"
      by auto
  qed
  have upd: "snd (User_update bcrypt_hash db un data) = Inr r
      \<longrightarrow> ''password'' \<notin> fst ` set r"
  proof
    assume "snd (User_update bcrypt_hash db un data) = Inr r"
    from User_update_result [OF this] show "''password'' \<notin> fst ` set r"
      using js_delete_no_key by blast
  qed
  have bound: "truthy (get_prop data ''password'') \<and> bcrypt_hash (get_prop data ''password'') = Inr h
      \<longrightarrow> map snd (fst (User_update bcrypt_hash db un data))
            = [map snd (Object_entries (assign data ''password'' (JStr h))) @ [un]]"
  proof
    assume a: "truthy (get_prop data ''password'') \<and> bcrypt_hash (get_prop data ''password'') = Inr h"
    then obtain v where "map_of data ''password'' = Some v"
      by (cases "map_of data ''password''") (auto simp add: get_prop_def)
    then have "(''password'', v) \<in> set data" by (rule map_of_SomeD)
    then have "''password'' \<in> set (map fst data)" by force
    then have ne: "assign data ''password'' (JStr h) \<noteq> []"
      by (auto simp add: assign_def)
    from a have hp: "hash_password bcrypt_hash data = Inr (assign data ''password'' (JStr h))"
      by (simp add: hash_password_def)
    show "map snd (fst (User_update bcrypt_hash db un data))
            = [map snd (Object_entries (assign data ''password'' (JStr h))) @ [un]]"
      by (simp add: User_update_def hp sqlForPartialUpdate_nonempty [OF ne] Let_def)
  qed
  have auth: "User_authenticate bcrypt_compare st name pw = Inr r
      \<longrightarrow> ''password'' \<notin> fst ` set r"
    by (auto simp add: User_authenticate_cases split: list.splits if_splits)
  from reg upd bound auth show ?thesis by blast
qed

theorem returned_user_without_password_witness:
  "User_register (\<lambda>v. Inr (''$2b$'' @ to_string v)) store_with_job registration_u3
     = Inr (store_with_job
              \<lparr>users := [user_u2,
                          \<lparr> u_username = ''u3'', u_password = ''$2b$password3'',
                            u_first_name = ''U3F'', u_last_name = ''U3L'',
                            u_email = ''user3@user.com'', u_is_admin = False \<rparr>]\<rparr>,
            [(''username'', JStr ''u3''), (''firstName'', JStr ''U3F''),
             (''lastName'', JStr ''U3L''), (''email'', JStr ''user3@user.com''),
             (''isAdmin'', JBool False)])
   \<and> ''password'' \<notin> fst ` set [(''username'', JStr ''u3''), (''firstName'', JStr ''U3F''),
             (''lastName'', JStr ''U3L''), (''email'', JStr ''user3@user.com''),
             (''isAdmin'', JBool False)]
   \<and> snd (User_update (\<lambda>v. Inr (''$2b$'' @ to_string v))
             (\<lambda>q. Inr [[(''username'', JStr ''u2''), (''password'', JStr ''x'')]])
             (JStr ''u2'') [(''password'', JStr ''new'')])
       = Inr [(''username'', JStr ''u2'')]
   \<and> ''password'' \<notin> fst ` set [(''username'', JStr ''u2'')]
   \<and> truthy (get_prop [(''password'', JStr ''new'')] ''password'')
   \<and> map snd (fst (User_update (\<lambda>v. Inr (''$2b$'' @ to_string v))
             (\<lambda>q. Inr [[(''username'', JStr ''u2''), (''password'', JStr ''x'')]])
             (JStr ''u2'') [(''password'', JStr ''new'')]))
       = [[JStr ''$2b$new'', JStr ''u2'']]
   \<and> User_authenticate (\<lambda>p h. h = JStr (''$2b$'' @ p)) store_with_job ''u2'' ''hash''
       = Inr [(''username'', JStr ''u2''), (''firstName'', JStr ''U2F''),
              (''lastName'', JStr ''U2L''), (''email'', JStr ''user2@user.com''),
              (''isAdmin'', JBool False)]
   \<and> ''password'' \<notin> fst ` set [(''username'', JStr ''u2''), (''firstName'', JStr ''U2F''),
              (''lastName'', JStr ''U2L''), (''email'', JStr ''user2@user.com''),
              (''isAdmin'', JBool False)]"
proof -
  let ?H = "\<lambda>v. Inr (''$2b$'' @ to_string v) :: error + string"
  let ?D = "\<lambda>q :: query. Inr [[(''username'', JStr ''u2''), (''password'', JStr ''x'')]] :: error + row list"
  let ?st' = "store_with_job
              \<lparr>users := [user_u2,
                          \<lparr> u_username = ''u3'', u_password = ''$2b$password3'',
                            u_first_name = ''U3F'', u_last_name = ''U3L'',
                            u_email = ''user3@user.com'', u_is_admin = False \<rparr>]\<rparr>"
  let ?r3 = "[(''username'', JStr ''u3''), (''firstName'', JStr ''U3F''),
             (''lastName'', JStr ''U3L''), (''email'', JStr ''user3@user.com''),
             (''isAdmin'', JBool False)] :: row"
  let ?r2 = "[(''username'', JStr ''u2''), (''firstName'', JStr ''U2F''),
              (''lastName'', JStr ''U2L''), (''email'', JStr ''user2@user.com''),
              (''isAdmin'', JBool False)] :: row"
  let ?data = "[(''password'', JStr ''new'')] :: row"
  let ?cmp = "\<lambda>p h. h = JStr (''$2b$'' @ p)"
  have reg: "User_register ?H store_with_job registration_u3 = Inr (?st', ?r3)"
    by (simp add: User_register_def registration_u3_def store_with_job_def user_u2_def Let_def)
  have tr: "truthy (get_prop ?data ''password'')"
    and hh: "?H (get_prop ?data ''password'') = Inr ''$2b$new''"
    by (simp_all add: get_prop_def)
  have upd: "snd (User_update ?H ?D (JStr ''u2'') ?data) = Inr [(''username'', JStr ''u2'')]"
    by (simp add: User_update_def hash_password_def get_prop_def assign_def
        sqlForPartialUpdate_def Object_keys_def Object_entries_def is_array_index_def
        is_digit_def first_row_or_def js_delete_def Let_def)
  have auth: "User_authenticate ?cmp store_with_job ''u2'' ''hash'' = Inr ?r2"
    by (simp add: User_authenticate_cases store_with_job_def user_u2_def)
  from returned_user_without_password
         [of ?H store_with_job registration_u3 ?st' ?r3 ?D "JStr ''u2''" ?data
             "''$2b$new''" ?cmp "''u2''" "''hash''"] reg
  have a: "''password'' \<notin> fst ` set ?r3" by blast
  from returned_user_without_password
         [of ?H store_with_job registration_u3 ?st' "[(''username'', JStr ''u2'')]" ?D
             "JStr ''u2''" ?data "''$2b$new''" ?cmp "''u2''" "''hash''"] upd tr hh
  have b: "''password'' \<notin> fst ` set [(''username'', JStr ''u2'')]"
    and c: "map snd (fst (User_update ?H ?D (JStr ''u2'') ?data))
              = [map snd (Object_entries (assign ?data ''password'' (JStr ''$2b$new''))) @ [JStr ''u2'']]"
    by blast+
  from c have c': "map snd (fst (User_update ?H ?D (JStr ''u2'') ?data))
              = [[JStr ''$2b$new'', JStr ''u2'']]"
    by (simp add: assign_def Object_entries_def is_array_index_def is_digit_def)
  from returned_user_without_password
         [of ?H store_with_job registration_u3 ?st' ?r2 ?D "JStr ''u2''" ?data
             "''$2b$new''" ?cmp "''u2''" "''hash''"] auth
  have d: "''password'' \<notin> fst ` set ?r2" by blast
  from reg a upd b tr c' auth d show ?thesis by blast
qed

end
